theory Spec2Isabelle
  imports Complex_Main "HOL-Library.Char_ord" "HOL-Library.List_Lexorder"
    "HOL-Library.Product_Lexorder" "HOL-Library.Multiset"
begin

section \<open>Python values\<close>

text \<open>
  The recommendation engine of \<^verbatim>\<open>app.py\<close> works on dictionaries whose values come
  straight from the Meta API (numbers, numeric strings, missing fields). The exceptions
  the code can raise are values of \<open>py_error\<close>; a computation that may raise returns
  \<open>py_error + 'a\<close> with \<open>Inl\<close> for the exception.

  A Python float is a finite value, an infinity or NaN. Finite values are exact reals here:
  rounding and overflow of binary64 are not modelled, and zero has no sign.
\<close>

datatype py_error = ValueError | TypeError | KeyError | OverflowError | AttributeError

datatype pyfloat = Fin real | PInf | NInf | NaN

datatype pyval =
    PyNone
  | PyBool bool
  | PyInt int
  | PyFloat pyfloat
  | PyStr string
  | PyList "pyval list"
  | PyDict "(string \<times> pyval) list"

type_synonym pydict = "string \<rightharpoonup> pyval"

subsection \<open>Float arithmetic and comparison\<close>

definition inf_of_sign :: "real \<Rightarrow> pyfloat" where
  "inf_of_sign s = (if 0 < s then PInf else if s < 0 then NInf else NaN)"

fun fl_less :: "pyfloat \<Rightarrow> pyfloat \<Rightarrow> bool" where
  "fl_less NaN _ = False"
| "fl_less _ NaN = False"
| "fl_less (Fin x) (Fin y) = (x < y)"
| "fl_less (Fin x) PInf = True"
| "fl_less NInf (Fin y) = True"
| "fl_less NInf PInf = True"
| "fl_less _ _ = False"

definition fl_gt :: "pyfloat \<Rightarrow> pyfloat \<Rightarrow> bool" where
  "fl_gt a b = fl_less b a"

fun fl_neg :: "pyfloat \<Rightarrow> pyfloat" where
  "fl_neg (Fin x) = Fin (- x)"
| "fl_neg PInf = NInf"
| "fl_neg NInf = PInf"
| "fl_neg NaN = NaN"

fun fl_add :: "pyfloat \<Rightarrow> pyfloat \<Rightarrow> pyfloat" where
  "fl_add NaN _ = NaN"
| "fl_add _ NaN = NaN"
| "fl_add (Fin x) (Fin y) = Fin (x + y)"
| "fl_add PInf NInf = NaN"
| "fl_add NInf PInf = NaN"
| "fl_add PInf _ = PInf"
| "fl_add _ PInf = PInf"
| "fl_add NInf _ = NInf"
| "fl_add _ NInf = NInf"

definition fl_sub :: "pyfloat \<Rightarrow> pyfloat \<Rightarrow> pyfloat" where
  "fl_sub a b = fl_add a (fl_neg b)"

fun fl_mul :: "pyfloat \<Rightarrow> pyfloat \<Rightarrow> pyfloat" where
  "fl_mul NaN _ = NaN"
| "fl_mul _ NaN = NaN"
| "fl_mul (Fin x) (Fin y) = Fin (x * y)"
| "fl_mul PInf (Fin y) = inf_of_sign y"
| "fl_mul NInf (Fin y) = inf_of_sign (- y)"
| "fl_mul (Fin x) PInf = inf_of_sign x"
| "fl_mul (Fin x) NInf = inf_of_sign (- x)"
| "fl_mul PInf PInf = PInf"
| "fl_mul NInf NInf = PInf"
| "fl_mul PInf NInf = NInf"
| "fl_mul NInf PInf = NInf"

text \<open>
  Division as numpy and IEEE 754 do it: a zero divisor gives an infinity or NaN, never an
  exception. The Python-level divisions of the engine have a non-zero divisor (a benchmark).
\<close>

fun fl_div :: "pyfloat \<Rightarrow> pyfloat \<Rightarrow> pyfloat" where
  "fl_div NaN _ = NaN"
| "fl_div _ NaN = NaN"
| "fl_div (Fin x) (Fin y) = (if y = 0 then inf_of_sign x else Fin (x / y))"
| "fl_div (Fin x) _ = Fin 0"
| "fl_div PInf (Fin y) = (if 0 \<le> y then PInf else NInf)"
| "fl_div NInf (Fin y) = (if 0 \<le> y then NInf else PInf)"
| "fl_div _ _ = NaN"

subsection \<open>The builtins \<^verbatim>\<open>float()\<close> and \<^verbatim>\<open>int()\<close> on strings\<close>

text \<open>
  Python's grammar for \<^verbatim>\<open>float(str)\<close>: surrounding whitespace is dropped, then an
  optional sign, then \<^verbatim>\<open>inf\<close>, \<^verbatim>\<open>infinity\<close> or \<^verbatim>\<open>nan\<close> in any case, or a
  decimal number with an optional exponent; digits may be grouped by single underscores.
\<close>

definition is_space :: "char \<Rightarrow> bool" where
  "is_space c = (let n = (of_char c :: nat) in (9 \<le> n \<and> n \<le> 13) \<or> (28 \<le> n \<and> n \<le> 32))"

definition is_digit :: "char \<Rightarrow> bool" where
  "is_digit c = (let n = (of_char c :: nat) in 48 \<le> n \<and> n \<le> 57)"

definition digit_val :: "char \<Rightarrow> nat" where
  "digit_val c = of_char c - 48"

definition to_lower :: "char \<Rightarrow> char" where
  "to_lower c = (let n = (of_char c :: nat) in if 65 \<le> n \<and> n \<le> 90 then char_of (n + 32) else c)"

definition strip :: "string \<Rightarrow> string" where
  "strip s = rev (dropWhile is_space (rev (dropWhile is_space s)))"

text \<open>\<open>digitpart_rest v n s\<close>: the digits read so far have value \<open>v\<close> and there are \<open>n\<close> of
  them; the result is the value, the number of digits and the unread rest.\<close>

fun digitpart_rest :: "nat \<Rightarrow> nat \<Rightarrow> string \<Rightarrow> nat \<times> nat \<times> string" where
  "digitpart_rest v n [] = (v, n, [])"
| "digitpart_rest v n [c] =
     (if is_digit c then (10 * v + digit_val c, Suc n, []) else (v, n, [c]))"
| "digitpart_rest v n (c # d # ds) =
     (if is_digit c then digitpart_rest (10 * v + digit_val c) (Suc n) (d # ds)
      else if c = CHR ''_'' \<and> is_digit d then digitpart_rest (10 * v + digit_val d) (Suc n) ds
      else (v, n, c # d # ds))"

definition digitpart :: "string \<Rightarrow> (nat \<times> nat \<times> string) option" where
  "digitpart s =
     (case s of
        [] \<Rightarrow> None
      | c # cs \<Rightarrow> if is_digit c then Some (digitpart_rest (digit_val c) 1 cs) else None)"

definition split_sign :: "string \<Rightarrow> bool \<times> string" where
  "split_sign s =
     (case s of
        [] \<Rightarrow> (False, [])
      | c # cs \<Rightarrow> if c = CHR ''-'' then (True, cs)
                 else if c = CHR ''+'' then (False, cs) else (False, s))"

definition exponent_tail :: "real \<Rightarrow> string \<Rightarrow> real option" where
  "exponent_tail m s =
     (case s of
        [] \<Rightarrow> Some m
      | c # cs \<Rightarrow>
          if c = CHR ''e'' \<or> c = CHR ''E'' then
            (case split_sign cs of
               (neg, ds) \<Rightarrow>
                 (case digitpart ds of
                    Some (e, _, []) \<Rightarrow> Some (if neg then m / 10 ^ e else m * 10 ^ e)
                  | _ \<Rightarrow> None))
          else None)"

definition floatnumber :: "string \<Rightarrow> real option" where
  "floatnumber s =
     (case digitpart s of
        Some (ip, _, rest) \<Rightarrow>
          (case rest of
             [] \<Rightarrow> Some (real ip)
           | c # rest2 \<Rightarrow>
               if c = CHR ''.'' then
                 (case digitpart rest2 of
                    Some (fp, nf, rest3) \<Rightarrow> exponent_tail (real ip + real fp / 10 ^ nf) rest3
                  | None \<Rightarrow> exponent_tail (real ip) rest2)
               else exponent_tail (real ip) rest)
      | None \<Rightarrow>
          (case s of
             [] \<Rightarrow> None
           | c # rest2 \<Rightarrow>
               if c = CHR ''.'' then
                 (case digitpart rest2 of
                    Some (fp, nf, rest3) \<Rightarrow> exponent_tail (real fp / 10 ^ nf) rest3
                  | None \<Rightarrow> None)
               else None))"

definition float_of_string :: "string \<Rightarrow> pyfloat option" where
  "float_of_string s =
     (case split_sign (strip s) of
        (neg, u) \<Rightarrow>
          (let l = map to_lower u in
           if l = ''inf'' \<or> l = ''infinity'' then Some (if neg then NInf else PInf)
           else if l = ''nan'' then Some NaN
           else (case floatnumber u of
                   None \<Rightarrow> None
                 | Some r \<Rightarrow> Some (Fin (if neg then - r else r)))))"

text \<open>\<^verbatim>\<open>int(str)\<close> in base 10: whitespace, an optional sign, grouped digits, nothing else.\<close>

definition int_of_string :: "string \<Rightarrow> int option" where
  "int_of_string s =
     (case split_sign (strip s) of
        (neg, u) \<Rightarrow>
          (case digitpart u of
             Some (v, _, []) \<Rightarrow> Some (if neg then - int v else int v)
           | _ \<Rightarrow> None))"

text \<open>\<^verbatim>\<open>float(value)\<close>: a string that does not parse raises ValueError, a value of another
  kind raises TypeError.\<close>

fun py_float :: "pyval \<Rightarrow> py_error + pyfloat" where
  "py_float PyNone = Inl TypeError"
| "py_float (PyBool b) = Inr (Fin (if b then 1 else 0))"
| "py_float (PyInt i) = Inr (Fin (real_of_int i))"
| "py_float (PyFloat x) = Inr x"
| "py_float (PyStr s) = (case float_of_string s of None \<Rightarrow> Inl ValueError | Some x \<Rightarrow> Inr x)"
| "py_float (PyList _) = Inl TypeError"
| "py_float (PyDict _) = Inl TypeError"

text \<open>\<^verbatim>\<open>int(x)\<close> of a float truncates towards zero; NaN raises ValueError and an infinity
  raises OverflowError.\<close>

fun py_int_of_float :: "pyfloat \<Rightarrow> py_error + int" where
  "py_int_of_float (Fin r) = Inr (if 0 \<le> r then \<lfloor>r\<rfloor> else \<lceil>r\<rceil>)"
| "py_int_of_float NaN = Inl ValueError"
| "py_int_of_float PInf = Inl OverflowError"
| "py_int_of_float NInf = Inl OverflowError"

section \<open>Numeric normalization\<close>

text \<open>
  \<^verbatim>\<open>
  def safe_float(value, default=0.0):
      try:
          return float(value) if value not in [None, ''] else default
      except (TypeError, ValueError):
          return default
  \<close>
  \<open>py_float\<close> raises nothing but TypeError and ValueError, so \<open>safe_float\<close> is total.
\<close>

definition safe_float :: "pyval \<Rightarrow> pyfloat \<Rightarrow> pyfloat" where
  "safe_float v dflt =
     (if v \<noteq> PyNone \<and> v \<noteq> PyStr []
      then (case py_float v of Inr x \<Rightarrow> x | Inl e \<Rightarrow> dflt)
      else dflt)"

text \<open>
  \<^verbatim>\<open>
  def safe_int(value, default=0):
      try:
          return int(float(value)) if value not in [None, ''] else default
      except (TypeError, ValueError):
          return default
  \<close>
  The OverflowError of \<^verbatim>\<open>int(float('inf'))\<close> is not caught.
\<close>

definition safe_int :: "pyval \<Rightarrow> int \<Rightarrow> py_error + int" where
  "safe_int v dflt =
     (if v \<noteq> PyNone \<and> v \<noteq> PyStr []
      then (case py_float v of
              Inl e \<Rightarrow> Inr dflt
            | Inr x \<Rightarrow>
                (case py_int_of_float x of
                   Inr i \<Rightarrow> Inr i
                 | Inl e \<Rightarrow> if e = TypeError \<or> e = ValueError then Inr dflt else Inl e))
      else Inr dflt)"

text \<open>\<^verbatim>\<open>d.get(key, default)\<close>\<close>

definition dict_get :: "pydict \<Rightarrow> string \<Rightarrow> pyval \<Rightarrow> pyval" where
  "dict_get d k dflt = (case d k of None \<Rightarrow> dflt | Some v \<Rightarrow> v)"

section \<open>Benchmark table\<close>

text \<open>
  \<^verbatim>\<open>
  def calculate_industry_benchmark(objective):
      benchmarks = {'CONVERSIONS': 25.00, 'LEAD_GENERATION': 15.00, 'LINK_CLICKS': 1.20,
                    'REACH': 5.00, 'BRAND_AWARENESS': 10.00, 'VIDEO_VIEWS': 0.50}
      return benchmarks.get(objective, 20.00)
  \<close>
  The argument is whatever \<^verbatim>\<open>ad_details['campaign_objective']\<close> holds. A key that is
  not a string equals none of the table's keys; a list or a dict cannot be hashed and
  raises TypeError.
\<close>

definition benchmarks :: "(string \<times> real) list" where
  "benchmarks =
     [(''CONVERSIONS'', 25.00),
      (''LEAD_GENERATION'', 15.00),
      (''LINK_CLICKS'', 1.20),
      (''REACH'', 5.00),
      (''BRAND_AWARENESS'', 10.00),
      (''VIDEO_VIEWS'', 0.50)]"

fun calculate_industry_benchmark :: "pyval \<Rightarrow> py_error + real" where
  "calculate_industry_benchmark (PyStr objective) =
     Inr (case map_of benchmarks objective of None \<Rightarrow> 20.00 | Some b \<Rightarrow> b)"
| "calculate_industry_benchmark (PyList _) = Inl TypeError"
| "calculate_industry_benchmark (PyDict _) = Inl TypeError"
| "calculate_industry_benchmark _ = Inr 20.00"

section \<open>Recommendations\<close>

text \<open>
  A recommendation is the dictionary the rules build. Its severity is one of the three
  strings \<^verbatim>\<open>'high'\<close>, \<^verbatim>\<open>'medium'\<close>, \<^verbatim>\<open>'low'\<close>. The texts are f-strings: a text is
  the list of its literal parts and interpolated values, \<open>Shown v\<close> for \<^verbatim>\<open>{v}\<close> and
  \<open>Fixed n x\<close> for \<^verbatim>\<open>{x:.nf}\<close>. The Portuguese literals are written without their
  diacritics.
\<close>

datatype piece = Lit string | Shown pyval | Fixed nat pyfloat

type_synonym fstring = "piece list"

datatype severity = High | Medium | Low

record recommendation =
  title :: string
  severity :: severity
  diagnosis :: fstring
  actions :: "fstring list"
  expected_impact :: string
  timeframe :: string

text \<open>\<^verbatim>\<open>format(v, '.nf')\<close>: numbers format; a string raises ValueError (unknown format
  code), None and containers raise TypeError (unsupported format string).\<close>

fun format_f :: "nat \<Rightarrow> pyval \<Rightarrow> py_error + piece" where
  "format_f n (PyFloat x) = Inr (Fixed n x)"
| "format_f n (PyInt i) = Inr (Fixed n (Fin (real_of_int i)))"
| "format_f n (PyBool b) = Inr (Fixed n (Fin (if b then 1 else 0)))"
| "format_f n (PyStr _) = Inl ValueError"
| "format_f n PyNone = Inl TypeError"
| "format_f n (PyList _) = Inl TypeError"
| "format_f n (PyDict _) = Inl TypeError"

text \<open>\<^verbatim>\<open>sep.join(parts)\<close>\<close>

fun join :: "fstring \<Rightarrow> fstring list \<Rightarrow> fstring" where
  "join sep [] = []"
| "join sep [p] = p"
| "join sep (p # q # ps) = p @ sep @ join sep (q # ps)"

text \<open>Sequencing of statements that may raise: the first exception ends the run.\<close>

definition and_then :: "'e + 'a \<Rightarrow> ('a \<Rightarrow> 'e + 'b) \<Rightarrow> 'e + 'b" where
  "and_then m f = (case m of Inl e \<Rightarrow> Inl e | Inr x \<Rightarrow> f x)"

section \<open>Rule engine\<close>

subsection \<open>Rule 1: CTR\<close>

text \<open>
  \<^verbatim>\<open>
  ctr = safe_float(insights.get('ctr', 0)) * 100
  avg_ctr_benchmark = 1.5
  if ctr < avg_ctr_benchmark * 0.7:
      diagnosis = []
      if safe_float(insights.get('frequency', 0)) > 3:
          diagnosis.append(f"Frequencia alta ({insights.get('frequency', 0):.1f}x) ...")
      if safe_float(insights.get('cpm', 0)) > avg_ctr_benchmark * 1.3:
          diagnosis.append(f"CPM elevado (R${insights.get('cpm', 0):.2f}) ...")
      creative_type = ad_details.get('ad_type', 'desconhecido')
      recommendations.append({'title': 'Otimizacao de CTR Urgente', 'severity': 'high', ...})
  \<close>
  The two diagnosis lines compare the normalized value but format the raw field.
\<close>

definition avg_ctr_benchmark :: real where
  "avg_ctr_benchmark = 1.5"

definition ctr_percent :: "pydict \<Rightarrow> pyfloat" where
  "ctr_percent insights = fl_mul (safe_float (dict_get insights ''ctr'' (PyInt 0)) (Fin 0)) (Fin 100)"

definition diagnosis_frequency :: "pydict \<Rightarrow> py_error + fstring list" where
  "diagnosis_frequency insights =
     (if fl_gt (safe_float (dict_get insights ''frequency'' (PyInt 0)) (Fin 0)) (Fin 3)
      then and_then (format_f 1 (dict_get insights ''frequency'' (PyInt 0)))
             (\<lambda>p. Inr [[Lit ''Frequencia alta ('', p,
                          Lit ''x) indicando possivel fadiga criativa'']])
      else Inr [])"

definition diagnosis_cpm :: "pydict \<Rightarrow> py_error + fstring list" where
  "diagnosis_cpm insights =
     (if fl_gt (safe_float (dict_get insights ''cpm'' (PyInt 0)) (Fin 0))
               (Fin (avg_ctr_benchmark * 1.3))
      then and_then (format_f 2 (dict_get insights ''cpm'' (PyInt 0)))
             (\<lambda>p. Inr [[Lit ''CPM elevado (R$'', p, Lit '') sugerindo publico competitivo'']])
      else Inr [])"

definition ctr_recommendation :: "pydict \<Rightarrow> pyfloat \<Rightarrow> fstring list \<Rightarrow> recommendation" where
  "ctr_recommendation ad_details ctr diag =
     (let creative_type = dict_get ad_details ''ad_type'' (PyStr ''desconhecido'') in
      \<lparr> title = ''Otimizacao de CTR Urgente'',
        severity = High,
        diagnosis =
          [Lit ''CTR muito baixo ('', Fixed 2 ctr, Lit ''% vs benchmark '',
           Shown (PyFloat (Fin avg_ctr_benchmark)), Lit ''%). Possiveis causas: '']
          @ (if diag \<noteq> [] then join [Lit '', ''] diag
             else [Lit ''criativo ou segmentacao inadequados'']),
        actions =
          [[Lit ''Testar 3 novos criativos de '', Shown creative_type,
            Lit '' com abordagens diferentes''],
           (if creative_type = PyStr ''image'' \<or> creative_type = PyStr ''carousel''
            then [Lit ''Reduzir texto principal para menos de 125 caracteres'']
            else if creative_type = PyStr ''video'' then [Lit ''Adicionar legendas claras'']
            else [Lit ''Simplificar mensagem'']),
           [Lit ''Ajustar publico-alvo (atual: '',
            Shown (dict_get ad_details ''targeting'' (PyStr ''nao especificado'')), Lit '')''],
           [Lit ''Implementar rodizio de criativos a cada 3 dias'']],
        expected_impact = ''Aumento de 30-50% no CTR'',
        timeframe = ''3-5 dias para ver resultados'' \<rparr>)"

definition rule_ctr :: "pydict \<Rightarrow> pydict \<Rightarrow> py_error + recommendation list" where
  "rule_ctr ad_details insights =
     (let ctr = ctr_percent insights in
      if fl_less ctr (Fin (avg_ctr_benchmark * 0.7)) then
        and_then (diagnosis_frequency insights) (\<lambda>d1.
        and_then (diagnosis_cpm insights) (\<lambda>d2.
        Inr [ctr_recommendation ad_details ctr (d1 @ d2)]))
      else Inr [])"

subsection \<open>Rule 2: cost per conversion\<close>

text \<open>
  \<^verbatim>\<open>
  cost_per_conv = safe_float(insights.get('cost_per_conversion', 0))
  conv_rate = safe_float(insights.get('conversion_rate', 0))
  if cost_per_conv > 0 and conv_rate > 0:
      benchmark_cpa = calculate_industry_benchmark(ad_details['campaign_objective'])
      if cost_per_conv > benchmark_cpa * 1.2:
          recommendations.append({'title': 'Reducao de Custo por Conversao',
                                  'severity': 'high', ...})
  \<close>
  \<^verbatim>\<open>ad_details['campaign_objective']\<close> raises KeyError when the key is missing.
\<close>

definition cost_per_conv_of :: "pydict \<Rightarrow> pyfloat" where
  "cost_per_conv_of insights = safe_float (dict_get insights ''cost_per_conversion'' (PyInt 0)) (Fin 0)"

definition conv_rate_of :: "pydict \<Rightarrow> pyfloat" where
  "conv_rate_of insights = safe_float (dict_get insights ''conversion_rate'' (PyInt 0)) (Fin 0)"

definition subscript :: "pydict \<Rightarrow> string \<Rightarrow> py_error + pyval" where
  "subscript d k = (case d k of None \<Rightarrow> Inl KeyError | Some v \<Rightarrow> Inr v)"

definition cost_recommendation :: "pydict \<Rightarrow> pyfloat \<Rightarrow> real \<Rightarrow> recommendation" where
  "cost_recommendation ad_details cost_per_conv benchmark_cpa =
     \<lparr> title = ''Reducao de Custo por Conversao'',
       severity = High,
       diagnosis =
         [Lit ''Custo por conversao (R$'', Fixed 2 cost_per_conv, Lit '') esta '',
          Fixed 0 (fl_mul (fl_sub (fl_div cost_per_conv (Fin benchmark_cpa)) (Fin 1)) (Fin 100)),
          Lit ''% acima do benchmark ('', Fixed 2 (Fin benchmark_cpa), Lit '')''],
       actions =
         [[Lit ''Otimizar pagina de destino para melhorar taxa de conversao''],
          [Lit ''Testar novos CTAs no anuncio e na landing page''],
          [Lit ''Ajustar bid strategy (atual: '',
           Shown (dict_get ad_details ''bid_strategy'' (PyStr ''nao especificado'')), Lit '')''],
          [Lit ''Segmentar publico semelhante a converters (lookalike)'']],
       expected_impact = ''Reducao de 20-35% no CPA'',
       timeframe = ''1-2 semanas para otimizacao completa'' \<rparr>"

definition rule_cost :: "pydict \<Rightarrow> pydict \<Rightarrow> py_error + recommendation list" where
  "rule_cost ad_details insights =
     (let cost_per_conv = cost_per_conv_of insights;
          conv_rate = conv_rate_of insights in
      if fl_gt cost_per_conv (Fin 0) \<and> fl_gt conv_rate (Fin 0) then
        and_then (subscript ad_details ''campaign_objective'') (\<lambda>objective.
        and_then (calculate_industry_benchmark objective) (\<lambda>benchmark_cpa.
        if fl_gt cost_per_conv (Fin (benchmark_cpa * 1.2))
        then Inr [cost_recommendation ad_details cost_per_conv benchmark_cpa]
        else Inr []))
      else Inr [])"

subsection \<open>Rule 3: frequency and saturation\<close>

text \<open>
  \<^verbatim>\<open>
  freq = safe_float(insights.get('frequency', 0))
  if freq > 3.5:
      rec = {'title': 'Rotacao de Criativos Necessaria', 'severity': 'medium', ...,
             'actions': [three actions], ...}
      if ad_details.get('ad_type') == 'video':
          rec['actions'].extend([two more actions])
      recommendations.append(rec)
  \<close>
\<close>

definition rule_frequency :: "pydict \<Rightarrow> pydict \<Rightarrow> recommendation list" where
  "rule_frequency ad_details insights =
     (let freq = safe_float (dict_get insights ''frequency'' (PyInt 0)) (Fin 0) in
      if fl_gt freq (Fin 3.5) then
        (let rec = \<lparr> title = ''Rotacao de Criativos Necessaria'',
                     severity = Medium,
                     diagnosis = [Lit ''Frequencia alta ('', Fixed 1 freq,
                                  Lit ''x) indica saturacao do publico''],
                     actions = [[Lit ''Pausar este anuncio por 7 dias''],
                                [Lit ''Criar 2-3 variacoes com novos criativos''],
                                [Lit ''Expandir publico-alvo em 15-20%'']],
                     expected_impact = ''Melhoria de 15-25% nas taxas de engajamento'',
                     timeframe = ''Imediato'' \<rparr> in
         if dict_get ad_details ''ad_type'' PyNone = PyStr ''video''
         then [rec\<lparr> actions := actions rec
                       @ [[Lit ''Testar versao resumida do video (15-30s)''],
                          [Lit ''Adicionar hook nos primeiros 3 segundos'']] \<rparr>]
         else [rec])
      else [])"

subsection \<open>Rule 4: demographics\<close>

text \<open>
  \<^verbatim>\<open>
  if demographics:
      demo_df = pd.DataFrame([{
          'age': d.get('age', 'N/A'), 'gender': d.get('gender', 'N/A'),
          'impressions': safe_int(d.get('impressions', 0)),
          'spend': safe_float(d.get('spend', 0)),
          'conversions': safe_int(d.get('conversions', 0))
      } for d in demographics if 'age' in d])
      if not demo_df.empty:
          demo_df['cpa'] = demo_df['spend'] / demo_df['conversions'].replace(0, 1)
          worst_performing = demo_df.sort_values('cpa', ascending=False).iloc[0]
          if worst_performing['cpa'] > cost_per_conv * 1.5:
              recommendations.append({'title': 'Ajuste de Segmentacao Demografica',
                                      'severity': 'medium', ...})
  \<close>
\<close>

record demo_row =
  age :: pyval
  gender :: pyval
  impressions :: int
  spend :: pyfloat
  conversions :: int

fun demo_rows :: "pydict list \<Rightarrow> py_error + demo_row list" where
  "demo_rows [] = Inr []"
| "demo_rows (d # ds) =
     (if d ''age'' = None then demo_rows ds
      else
        and_then (safe_int (dict_get d ''impressions'' (PyInt 0)) 0) (\<lambda>imp.
        and_then (safe_int (dict_get d ''conversions'' (PyInt 0)) 0) (\<lambda>conv.
        and_then (demo_rows ds) (\<lambda>rows.
        Inr (\<lparr> age = dict_get d ''age'' (PyStr ''N/A''),
                gender = dict_get d ''gender'' (PyStr ''N/A''),
                impressions = imp,
                spend = safe_float (dict_get d ''spend'' (PyInt 0)) (Fin 0),
                conversions = conv \<rparr> # rows)))))"

text \<open>\<^verbatim>\<open>series.replace(0, 1)\<close> on one cell of an integer column.\<close>

definition replace_0_1 :: "int \<Rightarrow> int" where
  "replace_0_1 x = (if x = 0 then 1 else x)"

definition cpa :: "demo_row \<Rightarrow> pyfloat" where
  "cpa r = fl_div (spend r) (Fin (real_of_int (replace_0_1 (conversions r))))"

text \<open>
  \<^verbatim>\<open>sort_values('cpa', ascending=False).iloc[0]\<close>: a row with the largest \<open>cpa\<close>, NaN
  counting as smallest (pandas puts NaN last). Among rows with the same \<open>cpa\<close> the first one
  of the frame is taken here; pandas' default sort does not fix which one it is, and the
  value compared by the rule is the same for all of them.
\<close>

definition sorts_after :: "pyfloat \<Rightarrow> pyfloat \<Rightarrow> bool" where
  "sorts_after a b = ((a = NaN \<and> b \<noteq> NaN) \<or> fl_less a b)"

fun worst_of :: "demo_row \<Rightarrow> demo_row list \<Rightarrow> demo_row" where
  "worst_of b [] = b"
| "worst_of b (r # rs) = worst_of (if sorts_after (cpa b) (cpa r) then r else b) rs"

definition demographic_recommendation :: "demo_row \<Rightarrow> pyfloat \<Rightarrow> recommendation" where
  "demographic_recommendation worst_performing cost_per_conv =
     \<lparr> title = ''Ajuste de Segmentacao Demografica'',
       severity = Medium,
       diagnosis =
         [Lit ''Segmento '', Shown (age worst_performing), Lit '' '',
          Shown (gender worst_performing), Lit '' tem CPA '', Fixed 2 (cpa worst_performing),
          Lit '' ('',
          Fixed 0 (fl_mul (fl_sub (fl_div (cpa worst_performing) cost_per_conv) (Fin 1)) (Fin 100)),
          Lit ''% acima da media)''],
       actions =
         [[Lit ''Reduzir orcamento para '', Shown (age worst_performing), Lit '' '',
           Shown (gender worst_performing), Lit '' em 30%''],
          [Lit ''Criar anuncio especifico para este segmento''],
          [Lit ''Testar mensagens personalizadas para este grupo'']],
       expected_impact = ''Reducao de 15-20% no CPA geral'',
       timeframe = ''5-7 dias'' \<rparr>"

definition rule_demographic :: "pydict \<Rightarrow> pydict list \<Rightarrow> py_error + recommendation list" where
  "rule_demographic insights demographics =
     (if demographics \<noteq> [] then
        and_then (demo_rows demographics) (\<lambda>demo_df.
        case demo_df of
          [] \<Rightarrow> Inr []
        | r # rs \<Rightarrow>
            (let worst_performing = worst_of r rs;
                 cost_per_conv = cost_per_conv_of insights in
             if fl_gt (cpa worst_performing) (fl_mul cost_per_conv (Fin 1.5))
             then Inr [demographic_recommendation worst_performing cost_per_conv]
             else Inr []))
      else Inr [])"

subsection \<open>Rule 5: scheduling\<close>

text \<open>
  The temporal data is a pandas DataFrame: a mapping from column names to columns of one
  length. A cell of a numeric column is a finite float (a real). A timestamp is the day,
  counted from 1970-01-01 (a Thursday), and the hour of the day.
  \<^verbatim>\<open>
  if temporal_data is not None:
      temporal_data['day_of_week'] = temporal_data['date_start'].dt.day_name()
      temporal_data['hour'] = temporal_data['date_start'].dt.hour
      best_day = temporal_data.groupby('day_of_week')['conversions'].sum().idxmax()
      best_hour = temporal_data.groupby('hour')['conversions'].sum().idxmax()
      recommendations.append({'title': 'Otimizacao de Agendamento', 'severity': 'low', ...})
  \<close>
  The two assignments write into the frame the caller passed, so the rule returns the frame
  as it is left, also when a later statement raises.
\<close>

record timestamp =
  ts_day :: int
  ts_hour :: int

datatype column =
    DateCol "timestamp list"
  | NumCol "real list"
  | IntCol "int list"
  | StrCol "string list"

type_synonym dataframe = "string \<rightharpoonup> column"

definition day_names :: "string list" where
  "day_names = [''Monday'', ''Tuesday'', ''Wednesday'', ''Thursday'', ''Friday'',
                ''Saturday'', ''Sunday'']"

definition day_name :: "timestamp \<Rightarrow> string" where
  "day_name t = day_names ! nat ((ts_day t + 3) mod 7)"

text \<open>\<^verbatim>\<open>groupby(keys)[values].sum()\<close>: one entry per distinct key, in sorted key order.\<close>

definition groupby_sum :: "('k::linorder) list \<Rightarrow> real list \<Rightarrow> ('k \<times> real) list" where
  "groupby_sum ks vs =
     map (\<lambda>k. (k, sum_list (map snd (filter (\<lambda>kv. fst kv = k) (zip ks vs)))))
         (sort (remdups ks))"

text \<open>\<^verbatim>\<open>series.idxmax()\<close>: the label of the first maximum; ValueError on an empty series.\<close>

fun first_max :: "'k \<times> real \<Rightarrow> ('k \<times> real) list \<Rightarrow> 'k" where
  "first_max b [] = fst b"
| "first_max b (kv # kvs) = first_max (if snd b < snd kv then kv else b) kvs"

definition idxmax :: "('k \<times> real) list \<Rightarrow> py_error + 'k" where
  "idxmax s = (case s of [] \<Rightarrow> Inl ValueError | kv # kvs \<Rightarrow> Inr (first_max kv kvs))"

text \<open>A column read as numbers: KeyError when it is missing; dates and strings have no
  sum with a maximum and no quotient (TypeError).\<close>

definition numeric_column :: "dataframe \<Rightarrow> string \<Rightarrow> py_error + real list" where
  "numeric_column df name =
     (case df name of
        None \<Rightarrow> Inl KeyError
      | Some (NumCol xs) \<Rightarrow> Inr xs
      | Some (IntCol ns) \<Rightarrow> Inr (map real_of_int ns)
      | Some _ \<Rightarrow> Inl TypeError)"

definition schedule_recommendation :: "string \<Rightarrow> int \<Rightarrow> recommendation" where
  "schedule_recommendation best_day best_hour =
     \<lparr> title = ''Otimizacao de Agendamento'',
       severity = Low,
       diagnosis = [Lit ''Melhor desempenho as '', Shown (PyInt best_hour), Lit ''h nas '',
                    Shown (PyStr best_day), Lit ''s''],
       actions =
         [[Lit ''Concentrar 40% do orcamento nas '', Shown (PyStr best_day), Lit ''s''],
          [Lit ''Aumentar bids em 15% entre '', Shown (PyInt (best_hour - 1)), Lit ''-'',
           Shown (PyInt (best_hour + 1)), Lit ''h''],
          [Lit ''Reduzir bids em 20% nos horarios de pior desempenho'']],
       expected_impact = ''Aumento de 10-15% na eficiencia do orcamento'',
       timeframe = ''Proxima semana'' \<rparr>"

definition best_day_and_hour :: "timestamp list \<Rightarrow> dataframe \<Rightarrow> py_error + recommendation list" where
  "best_day_and_hour ds df =
     and_then (numeric_column df ''conversions'') (\<lambda>conv.
     and_then (idxmax (groupby_sum (map day_name ds) conv)) (\<lambda>best_day.
     and_then (idxmax (groupby_sum (map ts_hour ds) conv)) (\<lambda>best_hour.
     Inr [schedule_recommendation best_day best_hour])))"

definition rule_temporal ::
  "dataframe option \<Rightarrow> (py_error + recommendation list) \<times> dataframe option" where
  "rule_temporal temporal_data =
     (case temporal_data of
        None \<Rightarrow> (Inr [], None)
      | Some df \<Rightarrow>
          (case df ''date_start'' of
             None \<Rightarrow> (Inl KeyError, Some df)
           | Some (DateCol ds) \<Rightarrow>
               (let df1 = df(''day_of_week'' \<mapsto> StrCol (map day_name ds));
                    df2 = df1(''hour'' \<mapsto> IntCol (map ts_hour ds))
                in (best_day_and_hour ds df2, Some df2))
           | Some _ \<Rightarrow> (Inl AttributeError, Some df)))"

subsection \<open>Rule 6: creative elements\<close>

text \<open>
  \<^verbatim>\<open>
  def analyze_creative_elements(creative_data):
      recommendations = []
      if 'primary_text' in creative_data:
          text = creative_data['primary_text']
          word_count = len(text.split())
          if word_count > 125:
              recommendations.append({'title': 'Otimizacao de Texto', 'severity': 'medium', ...})
      if 'cta' not in creative_data or not creative_data['cta']:
          recommendations.append({'title': 'Adicionar Call-to-Action', 'severity': 'high', ...})
      return recommendations
  \<close>
  A dict is an association list in which the first binding of a key counts.
\<close>

definition is_substring :: "string \<Rightarrow> string \<Rightarrow> bool" where
  "is_substring k s = list_ex (\<lambda>i. take (length k) (drop i s) = k) [0..<Suc (length s)]"

fun py_contains :: "pyval \<Rightarrow> string \<Rightarrow> py_error + bool" where
  "py_contains (PyDict kvs) k = Inr (map_of kvs k \<noteq> None)"
| "py_contains (PyStr s) k = Inr (is_substring k s)"
| "py_contains (PyList xs) k = Inr (PyStr k \<in> set xs)"
| "py_contains _ k = Inl TypeError"

fun py_getitem :: "pyval \<Rightarrow> string \<Rightarrow> py_error + pyval" where
  "py_getitem (PyDict kvs) k = (case map_of kvs k of None \<Rightarrow> Inl KeyError | Some v \<Rightarrow> Inr v)"
| "py_getitem _ k = Inl TypeError"

fun py_truthy :: "pyval \<Rightarrow> bool" where
  "py_truthy PyNone = False"
| "py_truthy (PyBool b) = b"
| "py_truthy (PyInt i) = (i \<noteq> 0)"
| "py_truthy (PyFloat x) = (x \<noteq> Fin 0)"
| "py_truthy (PyStr s) = (s \<noteq> [])"
| "py_truthy (PyList xs) = (xs \<noteq> [])"
| "py_truthy (PyDict kvs) = (kvs \<noteq> [])"

text \<open>\<^verbatim>\<open>len(text.split())\<close>: the number of maximal runs of non-whitespace characters;
  a value that is not a string has no \<^verbatim>\<open>split\<close> (AttributeError).\<close>

fun count_words :: "bool \<Rightarrow> string \<Rightarrow> nat" where
  "count_words in_word [] = 0"
| "count_words in_word (c # cs) =
     (if is_space c then count_words False cs
      else if in_word then count_words True cs
      else Suc (count_words True cs))"

fun word_count_of :: "pyval \<Rightarrow> py_error + nat" where
  "word_count_of (PyStr s) = Inr (count_words False s)"
| "word_count_of _ = Inl AttributeError"

definition text_recommendation :: "nat \<Rightarrow> recommendation" where
  "text_recommendation word_count =
     \<lparr> title = ''Otimizacao de Texto'',
       severity = Medium,
       diagnosis = [Lit ''Texto muito longo ('', Shown (PyInt (int word_count)),
                    Lit '' palavras), ideal e <125 caracteres''],
       actions =
         [[Lit ''Reduzir texto em 30-40% mantendo a mensagem principal''],
          [Lit ''Testar versao com bullet points''],
          [Lit ''Mover detalhes para a descricao ou website'']],
       expected_impact = ''Aumento de 10-20% no CTR'',
       timeframe = ''Imediato'' \<rparr>"

definition cta_recommendation :: recommendation where
  "cta_recommendation =
     \<lparr> title = ''Adicionar Call-to-Action'',
       severity = High,
       diagnosis = [Lit ''Nenhum CTA especifico identificado no criativo''],
       actions =
         [[Lit (''Adicionar CTA claro como 'Compre Agora' ou 'Saiba Mais'' @ [CHR 0x27])],
          [Lit ''Posicionar CTA nos primeiros 3 segundos (video) ou acima do scroll (imagem)''],
          [Lit ''Testar 2-3 variacoes de CTA'']],
       expected_impact = ''Aumento de 15-25% nas conversoes'',
       timeframe = ''1-3 dias'' \<rparr>"

definition analyze_text :: "pyval \<Rightarrow> py_error + recommendation list" where
  "analyze_text creative_data =
     and_then (py_contains creative_data ''primary_text'') (\<lambda>has_text.
     if has_text then
       and_then (py_getitem creative_data ''primary_text'') (\<lambda>txt.
       and_then (word_count_of txt) (\<lambda>word_count.
       Inr (if 125 < word_count then [text_recommendation word_count] else [])))
     else Inr [])"

definition analyze_cta :: "pyval \<Rightarrow> py_error + recommendation list" where
  "analyze_cta creative_data =
     and_then (py_contains creative_data ''cta'') (\<lambda>has_cta.
     if \<not> has_cta then Inr [cta_recommendation]
     else and_then (py_getitem creative_data ''cta'') (\<lambda>cta.
          Inr (if \<not> py_truthy cta then [cta_recommendation] else [])))"

definition analyze_creative_elements :: "pyval \<Rightarrow> py_error + recommendation list" where
  "analyze_creative_elements creative_data =
     and_then (analyze_text creative_data) (\<lambda>r1.
     and_then (analyze_cta creative_data) (\<lambda>r2.
     Inr (r1 @ r2)))"

definition rule_creative :: "pydict \<Rightarrow> py_error + recommendation list" where
  "rule_creative ad_details =
     (case ad_details ''creative'' of
        None \<Rightarrow> Inr []
      | Some creative \<Rightarrow> analyze_creative_elements creative)"

subsection \<open>The battery and the prioritizer\<close>

text \<open>
  \<^verbatim>\<open>
  priority_order = {'high': 0, 'medium': 1, 'low': 2}
  recommendations.sort(key=lambda x: priority_order[x['severity']])
  return recommendations
  \<close>
  \<^verbatim>\<open>list.sort\<close> is stable; \<open>sort_key\<close> is insertion sort by key.
  \<open>emitted\<close> is the list \<^verbatim>\<open>recommendations\<close> as the six rules leave it, with the frame
  \<^verbatim>\<open>temporal_data\<close> as the call leaves it.
\<close>

fun priority_order :: "severity \<Rightarrow> nat" where
  "priority_order High = 0"
| "priority_order Medium = 1"
| "priority_order Low = 2"

definition prioritize :: "recommendation list \<Rightarrow> recommendation list" where
  "prioritize recommendations = sort_key (\<lambda>x. priority_order (severity x)) recommendations"

definition emitted ::
  "pydict \<Rightarrow> pydict \<Rightarrow> dataframe option \<Rightarrow> pydict list
     \<Rightarrow> (py_error + recommendation list) \<times> dataframe option" where
  "emitted ad_details insights temporal_data demographics =
     (case and_then (rule_ctr ad_details insights) (\<lambda>r1.
           and_then (rule_cost ad_details insights) (\<lambda>r2.
           and_then (rule_demographic insights demographics) (\<lambda>r4.
           Inr (r1 @ r2 @ rule_frequency ad_details insights @ r4)))) of
        Inl e \<Rightarrow> (Inl e, temporal_data)
      | Inr rs \<Rightarrow>
          (case rule_temporal temporal_data of
             (Inl e, td) \<Rightarrow> (Inl e, td)
           | (Inr r5, td) \<Rightarrow>
               (and_then (rule_creative ad_details) (\<lambda>r6. Inr (rs @ r5 @ r6)), td)))"

definition generate_ai_optimization_recommendations ::
  "pydict \<Rightarrow> pydict \<Rightarrow> dataframe option \<Rightarrow> pydict list
     \<Rightarrow> (py_error + recommendation list) \<times> dataframe option" where
  "generate_ai_optimization_recommendations ad_details insights temporal_data demographics =
     (case emitted ad_details insights temporal_data demographics of
        (r, td) \<Rightarrow> (and_then r (\<lambda>recommendations. Inr (prioritize recommendations)), td))"

section \<open>Derived metrics\<close>

subsection \<open>Segment level\<close>

text \<open>
  \<^verbatim>\<open>show_demographic_analysis\<close> receives the rows \<^verbatim>\<open>get_ad_demographics\<close> has built:
  the counters are integers (\<^verbatim>\<open>safe_int\<close>) and the spend is a float (\<^verbatim>\<open>safe_float\<close>).
  \<^verbatim>\<open>
  df['ctr'] = (df['clicks'] / df['impressions'].replace(0, 1)) * 100
  df['conversion_rate'] = (df['conversions'] / df['clicks'].replace(0, 1)) * 100
  df['cost_per_conversion'] = df['spend'] / df['conversions'].replace(0, 1)
  \<close>
\<close>

record segment =
  seg_age :: string
  seg_gender :: string
  seg_impressions :: int
  seg_clicks :: int
  seg_conversions :: int
  seg_spend :: pyfloat

definition seg_ctr :: "segment \<Rightarrow> pyfloat" where
  "seg_ctr r =
     fl_mul (fl_div (Fin (real_of_int (seg_clicks r)))
                    (Fin (real_of_int (replace_0_1 (seg_impressions r))))) (Fin 100)"

definition seg_conversion_rate :: "segment \<Rightarrow> pyfloat" where
  "seg_conversion_rate r =
     fl_mul (fl_div (Fin (real_of_int (seg_conversions r)))
                    (Fin (real_of_int (replace_0_1 (seg_clicks r))))) (Fin 100)"

definition seg_cost_per_conversion :: "segment \<Rightarrow> pyfloat" where
  "seg_cost_per_conversion r =
     fl_div (seg_spend r) (Fin (real_of_int (replace_0_1 (seg_conversions r))))"

subsection \<open>Aggregate level\<close>

text \<open>
  \<^verbatim>\<open>generate_strategic_analysis\<close>:
  \<^verbatim>\<open>
  clicks = safe_float(insights.get('clicks', 0))
  conversions = safe_float(insights.get('conversions', 0))
  spend = safe_float(insights.get('spend', 0))
  impressions = safe_float(insights.get('impressions', 0))
  conversion_rate = (conversions / clicks) * 100 if clicks > 0 else 0
  cost_per_conversion = spend / conversions if conversions > 0 else 0
  cpm = (spend / impressions) * 1000 if impressions > 0 else 0
  cpc = spend / clicks if clicks > 0 else 0
  \<close>
\<close>

definition field :: "pydict \<Rightarrow> string \<Rightarrow> pyfloat" where
  "field insights k = safe_float (dict_get insights k (PyInt 0)) (Fin 0)"

definition agg_conversion_rate :: "pydict \<Rightarrow> pyfloat" where
  "agg_conversion_rate insights =
     (if fl_gt (field insights ''clicks'') (Fin 0)
      then fl_mul (fl_div (field insights ''conversions'') (field insights ''clicks'')) (Fin 100)
      else Fin 0)"

definition agg_cost_per_conversion :: "pydict \<Rightarrow> pyfloat" where
  "agg_cost_per_conversion insights =
     (if fl_gt (field insights ''conversions'') (Fin 0)
      then fl_div (field insights ''spend'') (field insights ''conversions'')
      else Fin 0)"

definition agg_cpm :: "pydict \<Rightarrow> pyfloat" where
  "agg_cpm insights =
     (if fl_gt (field insights ''impressions'') (Fin 0)
      then fl_mul (fl_div (field insights ''spend'') (field insights ''impressions'')) (Fin 1000)
      else Fin 0)"

definition agg_cpc :: "pydict \<Rightarrow> pyfloat" where
  "agg_cpc insights =
     (if fl_gt (field insights ''clicks'') (Fin 0)
      then fl_div (field insights ''spend'') (field insights ''clicks'')
      else Fin 0)"

subsection \<open>Time-series level\<close>

text \<open>
  \<^verbatim>\<open>get_ad_insights_over_time\<close>, one row of the frame (every cell went through
  \<^verbatim>\<open>safe_float\<close>):
  \<^verbatim>\<open>
  df['cpc'] = np.where(df['clicks'] > 0, df['spend']/df['clicks'], 0)
  df['conversion_rate'] = np.where(df['clicks'] > 0, (df['conversions']/df['clicks'])*100, 0)
  df['cost_per_conversion'] = np.where(df['conversions'] > 0, df['spend']/df['conversions'], 0)
  \<close>
\<close>

definition ts_cpc :: "pyfloat \<Rightarrow> pyfloat \<Rightarrow> pyfloat" where
  "ts_cpc spend_v clicks_v =
     (if fl_gt clicks_v (Fin 0) then fl_div spend_v clicks_v else Fin 0)"

definition ts_conversion_rate :: "pyfloat \<Rightarrow> pyfloat \<Rightarrow> pyfloat" where
  "ts_conversion_rate conversions_v clicks_v =
     (if fl_gt clicks_v (Fin 0) then fl_mul (fl_div conversions_v clicks_v) (Fin 100) else Fin 0)"

definition ts_cost_per_conversion :: "pyfloat \<Rightarrow> pyfloat \<Rightarrow> pyfloat" where
  "ts_cost_per_conversion spend_v conversions_v =
     (if fl_gt conversions_v (Fin 0) then fl_div spend_v conversions_v else Fin 0)"

section \<open>Temporal analysis: growth rate\<close>

text \<open>
  \<^verbatim>\<open>generate_strategic_analysis\<close>, for a column \<^verbatim>\<open>m\<close> of the frame:
  \<^verbatim>\<open>
  if temporal_data is not None:
      last_7_days = temporal_data.tail(7)
      ... last_7_days[m].pct_change().mean() * 100
  \<close>
  \<^verbatim>\<open>pct_change\<close> gives NaN for the first row and \<^verbatim>\<open>x[i] / x[i-1] - 1\<close> after it;
  \<^verbatim>\<open>mean\<close> skips NaN and is NaN when nothing is left.
\<close>

definition tail :: "nat \<Rightarrow> 'a list \<Rightarrow> 'a list" where
  "tail n xs = drop (length xs - n) xs"

fun pct_steps :: "real \<Rightarrow> real list \<Rightarrow> pyfloat list" where
  "pct_steps prev [] = []"
| "pct_steps prev (x # xs) = fl_sub (fl_div (Fin x) (Fin prev)) (Fin 1) # pct_steps x xs"

fun pct_change :: "real list \<Rightarrow> pyfloat list" where
  "pct_change [] = []"
| "pct_change (x # xs) = NaN # pct_steps x xs"

definition mean :: "pyfloat list \<Rightarrow> pyfloat" where
  "mean ys =
     (let zs = filter (\<lambda>y. y \<noteq> NaN) ys in
      if zs = [] then NaN
      else fl_div (foldl fl_add (Fin 0) zs) (Fin (real (length zs))))"

definition growth_rate :: "real list \<Rightarrow> pyfloat" where
  "growth_rate col = fl_mul (mean (pct_change (tail 7 col))) (Fin 100)"

text \<open>
  The statements of \<^verbatim>\<open>generate_strategic_analysis\<close> that read \<^verbatim>\<open>temporal_data\<close>, in
  the order they run. The statements between them read \<^verbatim>\<open>insights\<close>,
  \<^verbatim>\<open>demographics\<close> and \<^verbatim>\<open>ad_details\<close> and write to the page.
  \<^verbatim>\<open>
  freq_mean = temporal_data['frequency'].mean() if temporal_data is not None else 0
  ...
  if temporal_data is not None:
      last_7_days = temporal_data.tail(7)
      growth_rates = {
          'impressions': last_7_days['impressions'].pct_change().mean() * 100,
          'ctr': last_7_days['ctr'].pct_change().mean() * 100,
          'conversions': last_7_days['conversions'].pct_change().mean() * 100
      }
  \<close>
  A column that is missing raises KeyError, \<^verbatim>\<open>frequency\<close> first.
\<close>

definition freq_mean :: "dataframe option \<Rightarrow> py_error + pyfloat" where
  "freq_mean temporal_data =
     (case temporal_data of
        None \<Rightarrow> Inr (Fin 0)
      | Some df \<Rightarrow> and_then (numeric_column df ''frequency'') (\<lambda>xs. Inr (mean (map Fin xs))))"

definition growth_rates ::
  "dataframe option \<Rightarrow> py_error + (pyfloat \<times> pyfloat \<times> pyfloat) option" where
  "growth_rates temporal_data =
     and_then (freq_mean temporal_data) (\<lambda>fm.
     case temporal_data of
       None \<Rightarrow> Inr None
     | Some df \<Rightarrow>
         and_then (numeric_column df ''impressions'') (\<lambda>imp.
         and_then (numeric_column df ''ctr'') (\<lambda>ctr.
         and_then (numeric_column df ''conversions'') (\<lambda>conv.
         Inr (Some (growth_rate imp, growth_rate ctr, growth_rate conv))))))"

section \<open>Age buckets\<close>

text \<open>
  \<^verbatim>\<open>
  def age_sort_key(age_str):
      try:
          if age_str == '65+':
              return (65, 100)
          elif '-' in age_str:
              start, end = map(int, age_str.split('-'))
              return (start, end)
          else:
              age = int(age_str)
              return (age, age)
      except:
          return (999, 999)
  \<close>
  Unpacking raises unless the split has exactly two parts, and \<^verbatim>\<open>int\<close> raises on a part
  that is not a number; both end in the \<^verbatim>\<open>except\<close> branch. The frame is then sorted by
  this key, pairs comparing lexicographically.
\<close>

fun split_on :: "char \<Rightarrow> string \<Rightarrow> string list" where
  "split_on sep [] = [[]]"
| "split_on sep (c # cs) =
     (if c = sep then [] # split_on sep cs
      else (case split_on sep cs of
              [] \<Rightarrow> [[c]]
            | w # ws \<Rightarrow> (c # w) # ws))"

definition age_sort_key :: "string \<Rightarrow> int \<times> int" where
  "age_sort_key age_str =
     (if age_str = ''65+'' then (65, 100)
      else if CHR ''-'' \<in> set age_str then
        (case map int_of_string (split_on (CHR ''-'') age_str) of
           [Some start, Some end_v] \<Rightarrow> (start, end_v)
         | _ \<Rightarrow> (999, 999))
      else (case int_of_string age_str of
              Some a \<Rightarrow> (a, a)
            | None \<Rightarrow> (999, 999)))"

definition sort_ages :: "string list \<Rightarrow> string list" where
  "sort_ages ages = sort_key age_sort_key ages"

section \<open>Example inputs\<close>

text \<open>An ad as \<^verbatim>\<open>show_real_analysis\<close> builds it, a video ad, and records as the API
  returns them (numbers as strings).\<close>

definition conversions_ad :: pydict where
  "conversions_ad = [''id'' \<mapsto> PyStr ''1'', ''campaign_objective'' \<mapsto> PyStr ''CONVERSIONS'']"

definition video_ad :: pydict where
  "video_ad = [''campaign_objective'' \<mapsto> PyStr ''CONVERSIONS'', ''ad_type'' \<mapsto> PyStr ''video'']"

definition saturated_record :: pydict where
  "saturated_record =
     [''impressions'' \<mapsto> PyStr ''10000'', ''clicks'' \<mapsto> PyStr ''0'', ''ctr'' \<mapsto> PyStr ''0'',
      ''frequency'' \<mapsto> PyStr ''4.0'']"

definition healthy_record :: pydict where
  "healthy_record = [''ctr'' \<mapsto> PyStr ''0.05'', ''frequency'' \<mapsto> PyStr ''1.2'']"

definition fatigued_record :: pydict where
  "fatigued_record = [''ctr'' \<mapsto> PyStr ''0.05'', ''frequency'' \<mapsto> PyStr ''4.0'']"

definition zero_counters_record :: pydict where
  "zero_counters_record =
     [''clicks'' \<mapsto> PyStr ''0'', ''conversions'' \<mapsto> PyStr ''0'', ''spend'' \<mapsto> PyStr ''0'']"

definition inconsistent_record :: pydict where
  "inconsistent_record =
     [''clicks'' \<mapsto> PyStr ''0'', ''conversions'' \<mapsto> PyStr ''0'', ''spend'' \<mapsto> PyStr ''0'',
      ''cost_per_conversion'' \<mapsto> PyStr ''100'', ''conversion_rate'' \<mapsto> PyStr ''2'']"

text \<open>A frame with the columns \<^verbatim>\<open>get_ad_insights_over_time\<close> builds and no rows (every
  \<^verbatim>\<open>date_start\<close> was dropped as unparsable).\<close>

definition empty_frame :: dataframe where
  "empty_frame =
     [''date_start'' \<mapsto> DateCol [], ''impressions'' \<mapsto> NumCol [], ''reach'' \<mapsto> NumCol [],
      ''spend'' \<mapsto> NumCol [], ''clicks'' \<mapsto> NumCol [], ''ctr'' \<mapsto> NumCol [],
      ''frequency'' \<mapsto> NumCol [], ''cpm'' \<mapsto> NumCol [], ''conversions'' \<mapsto> NumCol []]"

definition two_day_frame :: dataframe where
  "two_day_frame =
     [''date_start'' \<mapsto> DateCol [\<lparr>ts_day = 0, ts_hour = 0\<rparr>, \<lparr>ts_day = 1, ts_hour = 0\<rparr>],
      ''conversions'' \<mapsto> NumCol [1, 3]]"

definition unconverted_segment :: segment where
  "unconverted_segment =
     \<lparr> seg_age = ''25-34'', seg_gender = ''male'', seg_impressions = 1000, seg_clicks = 10,
       seg_conversions = 0, seg_spend = Fin 100 \<rparr>"

definition unseen_segment :: segment where
  "unseen_segment =
     \<lparr> seg_age = ''65+'', seg_gender = ''female'', seg_impressions = 0, seg_clicks = 0,
       seg_conversions = 0, seg_spend = Fin 100 \<rparr>"

definition unconverted_row :: demo_row where
  "unconverted_row =
     \<lparr> age = PyStr ''25-34'', gender = PyStr ''male'', impressions = 1000, spend = Fin 100,
       conversions = 0 \<rparr>"

section \<open>Properties\<close>

lemma py_float_errors: "py_float v = Inl e \<Longrightarrow> e = TypeError \<or> e = ValueError"
  by (cases v) (auto split: option.splits)

text \<open>
  C9. The objective-aware benchmark lookup is total on objective strings: the six known
  objectives map to 25.00, 15.00, 1.20, 5.00, 10.00 and 0.50, and every other objective
  string maps to the fallback 20.00, never to an error.
\<close>

theorem benchmark_table:
  "calculate_industry_benchmark (PyStr ''CONVERSIONS'') = Inr 25
   \<and> calculate_industry_benchmark (PyStr ''LEAD_GENERATION'') = Inr 15
   \<and> calculate_industry_benchmark (PyStr ''LINK_CLICKS'') = Inr (12 / 10)
   \<and> calculate_industry_benchmark (PyStr ''REACH'') = Inr 5
   \<and> calculate_industry_benchmark (PyStr ''BRAND_AWARENESS'') = Inr 10
   \<and> calculate_industry_benchmark (PyStr ''VIDEO_VIEWS'') = Inr (5 / 10)
   \<and> (objective \<notin> {''CONVERSIONS'', ''LEAD_GENERATION'', ''LINK_CLICKS'', ''REACH'',
                     ''BRAND_AWARENESS'', ''VIDEO_VIEWS''}
        \<longrightarrow> calculate_industry_benchmark (PyStr objective) = Inr 20)"
  by (simp add: benchmarks_def)

theorem benchmark_table_witness:
  "''SALES'' \<notin> {''CONVERSIONS'', ''LEAD_GENERATION'', ''LINK_CLICKS'', ''REACH'',
                  ''BRAND_AWARENESS'', ''VIDEO_VIEWS''}
   \<and> calculate_industry_benchmark (PyStr ''SALES'') = Inr 20"
  using benchmark_table [of "''SALES''"] by simp

lemma field_absent: "insights k = None \<Longrightarrow> field insights k = Fin 0"
  by (simp add: field_def dict_get_def safe_float_def)

text \<open>
  C7. The cost-per-conversion rule reads the fields \<^verbatim>\<open>cost_per_conversion\<close> and
  \<^verbatim>\<open>conversion_rate\<close> of the record and nothing else of it: when either field is
  absent or normalizes to 0 the rule emits nothing, and changing any other field of the
  record (spend, clicks, conversions) does not change what the rule does.
\<close>

theorem cost_rule_reads_fields:
  "(insights ''cost_per_conversion'' = None \<or> cost_per_conv_of insights = Fin 0
      \<or> insights ''conversion_rate'' = None \<or> conv_rate_of insights = Fin 0
     \<longrightarrow> rule_cost ad_details insights = Inr [])
   \<and> (k \<noteq> ''cost_per_conversion'' \<and> k \<noteq> ''conversion_rate''
     \<longrightarrow> rule_cost ad_details (insights(k \<mapsto> v)) = rule_cost ad_details insights)"
  by (auto simp: rule_cost_def cost_per_conv_of_def conv_rate_of_def dict_get_def safe_float_def
      fl_gt_def Let_def)

theorem cost_rule_reads_fields_witness:
  "zero_counters_record ''cost_per_conversion'' = None
   \<and> rule_cost conversions_ad zero_counters_record = Inr []
   \<and> ''spend'' \<noteq> ''cost_per_conversion'' \<and> ''spend'' \<noteq> ''conversion_rate''
   \<and> rule_cost conversions_ad (zero_counters_record(''spend'' \<mapsto> PyStr ''500''))
       = rule_cost conversions_ad zero_counters_record"
  using cost_rule_reads_fields [of zero_counters_record conversions_ad "''spend''" "PyStr ''500''"]
  by (simp add: zero_counters_record_def)

text \<open>
  C5 (as the code has it). With a campaign objective present, the cost-per-conversion rule
  emits exactly one recommendation, of severity high, if and only if the record's
  \<^verbatim>\<open>cost_per_conversion\<close> field is above 0, its \<^verbatim>\<open>conversion_rate\<close> field is above 0
  and \<^verbatim>\<open>cost_per_conversion\<close> is above 1.2 times the benchmark of the objective; otherwise
  it emits nothing. For a record whose clicks and conversions are 0 the derived
  conversion rate and cost per conversion are 0, and the rule stays silent whenever the
  \<^verbatim>\<open>cost_per_conversion\<close> or \<^verbatim>\<open>conversion_rate\<close> field it reads is 0.
\<close>

theorem cost_rule_iff:
  "ad_details ''campaign_objective'' = Some (PyStr objective) \<Longrightarrow>
   calculate_industry_benchmark (PyStr objective) = Inr b \<Longrightarrow>
   rule_cost ad_details insights =
     (if fl_gt (cost_per_conv_of insights) (Fin 0) \<and> fl_gt (conv_rate_of insights) (Fin 0)
         \<and> fl_gt (cost_per_conv_of insights) (Fin (b * 1.2))
      then Inr [cost_recommendation ad_details (cost_per_conv_of insights) b] else Inr [])
   \<and> severity (cost_recommendation ad_details (cost_per_conv_of insights) b) = High
   \<and> (field insights ''clicks'' = Fin 0 \<and> field insights ''conversions'' = Fin 0
        \<longrightarrow> agg_conversion_rate insights = Fin 0 \<and> agg_cost_per_conversion insights = Fin 0)
   \<and> (cost_per_conv_of insights = Fin 0 \<or> conv_rate_of insights = Fin 0
        \<longrightarrow> rule_cost ad_details insights = Inr [])"
  by (auto simp: rule_cost_def subscript_def and_then_def cost_recommendation_def
      agg_conversion_rate_def agg_cost_per_conversion_def fl_gt_def Let_def)

theorem cost_rule_iff_witness:
  "conversions_ad ''campaign_objective'' = Some (PyStr ''CONVERSIONS'')
   \<and> calculate_industry_benchmark (PyStr ''CONVERSIONS'') = Inr 25
   \<and> field zero_counters_record ''clicks'' = Fin 0
   \<and> field zero_counters_record ''conversions'' = Fin 0
   \<and> cost_per_conv_of zero_counters_record = Fin 0
   \<and> agg_conversion_rate zero_counters_record = Fin 0
   \<and> agg_cost_per_conversion zero_counters_record = Fin 0
   \<and> rule_cost conversions_ad zero_counters_record = Inr []"
proof -
  have obj: "conversions_ad ''campaign_objective'' = Some (PyStr ''CONVERSIONS'')"
    by (simp add: conversions_ad_def)
  have b: "calculate_industry_benchmark (PyStr ''CONVERSIONS'') = Inr 25"
    by (simp add: benchmarks_def)
  have c: "field zero_counters_record ''clicks'' = Fin 0" by code_simp
  have v: "field zero_counters_record ''conversions'' = Fin 0" by code_simp
  have z: "cost_per_conv_of zero_counters_record = Fin 0" by code_simp
  show ?thesis
    using cost_rule_iff [where ad_details = conversions_ad and objective = "''CONVERSIONS''"
        and b = 25 and insights = zero_counters_record] obj b c v z
    by (simp add: fl_gt_def)
qed

text \<open>
  The claim as the specification words it fails: a record with clicks 0, conversions 0 and
  spend 0 that carries a \<^verbatim>\<open>cost_per_conversion\<close> of 100 and a \<^verbatim>\<open>conversion_rate\<close> of 2
  makes the rule fire, since the rule never looks at the counters.
\<close>

theorem cost_rule_counterexample:
  "field inconsistent_record ''clicks'' = Fin 0
   \<and> field inconsistent_record ''conversions'' = Fin 0
   \<and> field inconsistent_record ''spend'' = Fin 0
   \<and> rule_cost conversions_ad inconsistent_record
       = Inr [cost_recommendation conversions_ad (Fin 100) 25]"
  by code_simp

text \<open>
  The CTR rule. A \<^verbatim>\<open>ctr\<close> field that is absent, None, empty, 0 or not a number
  normalizes to 0 percent, which is below the trigger 1.5 * 0.7, and the rule then emits
  its recommendation provided the diagnosis lines can be formatted.
\<close>

lemma ctr_normalizes_to_zero:
  "insights ''ctr'' = None \<or> insights ''ctr'' = Some PyNone \<or> insights ''ctr'' = Some (PyStr [])
     \<or> insights ''ctr'' = Some (PyInt 0) \<or> insights ''ctr'' = Some (PyFloat (Fin 0))
     \<or> (\<exists>v e. insights ''ctr'' = Some v \<and> py_float v = Inl e)
   \<Longrightarrow> ctr_percent insights = Fin 0"
  by (auto simp: ctr_percent_def dict_get_def safe_float_def)

lemma ctr_rule_fires_when_formatted:
  "ctr_percent insights = Fin 0 \<Longrightarrow> diagnosis_frequency insights = Inr d1 \<Longrightarrow>
   diagnosis_cpm insights = Inr d2 \<Longrightarrow>
   rule_ctr ad_details insights = Inr [ctr_recommendation ad_details (Fin 0) (d1 @ d2)]
   \<and> severity (ctr_recommendation ad_details (Fin 0) (d1 @ d2)) = High"
  by (simp add: rule_ctr_def and_then_def avg_ctr_benchmark_def ctr_recommendation_def Let_def)

text \<open>
  C8. For a record whose \<^verbatim>\<open>ctr\<close> is 0 the CTR rule should emit its severity-high
  recommendation. For an ad shown 10000 times without a click, whose frequency the API
  returns as the string \<^verbatim>\<open>'4.0'\<close>, the normalized CTR is 0 and the rule is entered, but
  the diagnosis line formats the raw field with \<^verbatim>\<open>:.1f\<close>; formatting a string raises
  ValueError, and the engine ends with that exception instead of a recommendation.
\<close>

theorem ctr_rule_raises:
  "saturated_record ''ctr'' = Some (PyStr ''0'')
   \<and> ctr_percent saturated_record = Fin 0
   \<and> rule_ctr conversions_ad saturated_record = Inl ValueError
   \<and> fst (generate_ai_optimization_recommendations conversions_ad saturated_record None [])
       = Inl ValueError"
  by code_simp

lemma and_then_Inr: "and_then m f = Inr y \<Longrightarrow> \<exists>x. m = Inr x \<and> f x = Inr y"
  by (cases m) (auto simp: and_then_def)

lemma rule_ctr_actions:
  "rule_ctr ad_details insights = Inr rs \<Longrightarrow> r \<in> set rs \<Longrightarrow> length (actions r) = 4"
  by (auto simp: rule_ctr_def ctr_recommendation_def Let_def split: if_splits
      dest!: and_then_Inr)

lemma rule_cost_actions:
  "rule_cost ad_details insights = Inr rs \<Longrightarrow> r \<in> set rs \<Longrightarrow> length (actions r) = 4"
  by (auto simp: rule_cost_def cost_recommendation_def Let_def split: if_splits
      dest!: and_then_Inr)

lemma rule_frequency_actions:
  "r \<in> set (rule_frequency ad_details insights) \<Longrightarrow>
   title r = ''Rotacao de Criativos Necessaria''
   \<and> (if ad_details ''ad_type'' = Some (PyStr ''video'')
       then length (actions r) = 5 else length (actions r) = 3)"
  by (auto simp: rule_frequency_def Let_def dict_get_def split: if_splits option.splits)

lemma rule_demographic_actions:
  "rule_demographic insights demographics = Inr rs \<Longrightarrow> r \<in> set rs \<Longrightarrow> length (actions r) = 3"
  by (auto simp: rule_demographic_def demographic_recommendation_def Let_def
      split: if_splits list.splits dest!: and_then_Inr)

lemma rule_temporal_actions:
  "fst (rule_temporal td) = Inr rs \<Longrightarrow> r \<in> set rs \<Longrightarrow> length (actions r) = 3"
  by (auto simp: rule_temporal_def best_day_and_hour_def schedule_recommendation_def Let_def
      split: option.splits column.splits dest!: and_then_Inr)

lemma rule_creative_actions:
  "rule_creative ad_details = Inr rs \<Longrightarrow> r \<in> set rs \<Longrightarrow> length (actions r) = 3"
  by (auto simp: rule_creative_def analyze_creative_elements_def analyze_text_def
      analyze_cta_def text_recommendation_def cta_recommendation_def
      split: option.splits if_splits dest!: and_then_Inr)

lemma emitted_parts:
  "fst (emitted ad_details insights td demographics) = Inr rs \<Longrightarrow>
   \<exists>r1 r2 r4 r5 r6.
     rule_ctr ad_details insights = Inr r1 \<and> rule_cost ad_details insights = Inr r2
     \<and> rule_demographic insights demographics = Inr r4
     \<and> fst (rule_temporal td) = Inr r5 \<and> rule_creative ad_details = Inr r6
     \<and> rs = r1 @ r2 @ rule_frequency ad_details insights @ r4 @ r5 @ r6"
  by (auto simp: emitted_def split: sum.splits prod.splits dest!: and_then_Inr)

lemma generate_emitted:
  "fst (generate_ai_optimization_recommendations ad_details insights td demographics) = Inr out \<Longrightarrow>
   \<exists>rs. fst (emitted ad_details insights td demographics) = Inr rs \<and> out = prioritize rs"
  by (auto simp: generate_ai_optimization_recommendations_def split: prod.splits
      dest!: and_then_Inr)

text \<open>
  C6 (as the code has it). Every recommendation the engine returns carries an ordered
  action list of 3 or 4 items, except the frequency-saturation recommendation of a video ad,
  whose list of 3 is extended by 2 video actions to 5 items.
\<close>

theorem action_list_sizes:
  "fst (generate_ai_optimization_recommendations ad_details insights td demographics) = Inr out \<Longrightarrow>
   r \<in> set out \<Longrightarrow>
   3 \<le> length (actions r) \<and> length (actions r) \<le> 5
   \<and> (4 < length (actions r) \<longrightarrow>
        title r = ''Rotacao de Criativos Necessaria''
        \<and> ad_details ''ad_type'' = Some (PyStr ''video''))"
proof -
  assume out: "fst (generate_ai_optimization_recommendations ad_details insights td demographics) = Inr out"
    and r: "r \<in> set out"
  from generate_emitted [OF out] obtain rs where
    em: "fst (emitted ad_details insights td demographics) = Inr rs" and o: "out = prioritize rs"
    by blast
  from emitted_parts [OF em] obtain r1 r2 r4 r5 r6 where
    p: "rule_ctr ad_details insights = Inr r1" "rule_cost ad_details insights = Inr r2"
       "rule_demographic insights demographics = Inr r4"
       "fst (rule_temporal td) = Inr r5" "rule_creative ad_details = Inr r6"
       "rs = r1 @ r2 @ rule_frequency ad_details insights @ r4 @ r5 @ r6"
    by blast
  from r o have "r \<in> set rs" by (simp add: prioritize_def)
  with p(6) consider "r \<in> set r1" | "r \<in> set r2" | "r \<in> set (rule_frequency ad_details insights)"
    | "r \<in> set r4" | "r \<in> set r5" | "r \<in> set r6" by auto
  then show ?thesis
  proof cases
    case 1 with rule_ctr_actions [OF p(1)] show ?thesis by simp
  next
    case 2 with rule_cost_actions [OF p(2)] show ?thesis by simp
  next
    case 3 with rule_frequency_actions [of r ad_details insights] show ?thesis
      by (simp split: if_splits)
  next
    case 4 with rule_demographic_actions [OF p(3)] show ?thesis by simp
  next
    case 5 with rule_temporal_actions [OF p(4)] show ?thesis by simp
  next
    case 6 with rule_creative_actions [OF p(5)] show ?thesis by simp
  qed
qed

text \<open>A video ad with frequency 4.0: the only recommendation has 5 actions, not 2 to 4.\<close>

theorem action_list_counterexample:
  "map_sum id (map (\<lambda>r. length (actions r)))
     (fst (generate_ai_optimization_recommendations video_ad fatigued_record None [])) = Inr [5]"
  by code_simp

theorem action_list_sizes_witness:
  "fst (generate_ai_optimization_recommendations video_ad fatigued_record None [])
     = Inr (rule_frequency video_ad fatigued_record)
   \<and> hd (rule_frequency video_ad fatigued_record) \<in> set (rule_frequency video_ad fatigued_record)
   \<and> length (actions (hd (rule_frequency video_ad fatigued_record))) = 5
   \<and> title (hd (rule_frequency video_ad fatigued_record)) = ''Rotacao de Criativos Necessaria''
   \<and> video_ad ''ad_type'' = Some (PyStr ''video'')"
proof -
  have out: "fst (generate_ai_optimization_recommendations video_ad fatigued_record None [])
     = Inr (rule_frequency video_ad fatigued_record)" by code_simp
  have mem: "hd (rule_frequency video_ad fatigued_record) \<in> set (rule_frequency video_ad fatigued_record)"
    by code_simp
  have len: "length (actions (hd (rule_frequency video_ad fatigued_record))) = 5" by code_simp
  show ?thesis using action_list_sizes [OF out mem] out mem len by simp
qed

lemma filter_split:
  "filter P l = as @ a # rest \<Longrightarrow> \<exists>l1 l2. l = l1 @ a # l2 \<and> filter P l2 = rest"
proof (induction l arbitrary: as)
  case Nil
  then show ?case by simp
next
  case (Cons x l)
  show ?case
  proof (cases "P x")
    case False
    with Cons.prems have "filter P l = as @ a # rest" by simp
    from Cons.IH [OF this] obtain l1 l2 where "l = l1 @ a # l2" "filter P l2 = rest" by blast
    then have "x # l = (x # l1) @ a # l2 \<and> filter P l2 = rest" by simp
    then show ?thesis by blast
  next
    case True
    with Cons.prems have eq: "x # filter P l = as @ a # rest" by simp
    show ?thesis
    proof (cases as)
      case Nil
      with eq have "x # l = [] @ a # l \<and> filter P l = rest" by simp
      then show ?thesis by blast
    next
      case (Cons y as')
      with eq have "filter P l = as' @ a # rest" by simp
      from Cons.IH [OF this] obtain l1 l2 where "l = l1 @ a # l2" "filter P l2 = rest" by blast
      then have "x # l = (x # l1) @ a # l2 \<and> filter P l2 = rest" by simp
      then show ?thesis by blast
    qed
  qed
qed

lemma filter_keeps_order:
  "filter P l = as @ a # bs @ b # cs \<Longrightarrow> \<exists>us vs ws. l = us @ a # vs @ b # ws"
proof -
  assume "filter P l = as @ a # bs @ b # cs"
  from filter_split [OF this] obtain l1 l2 where
    l: "l = l1 @ a # l2" and l2: "filter P l2 = bs @ b # cs" by blast
  from filter_split [OF l2] obtain m1 m2 where m: "l2 = m1 @ b # m2" by blast
  from l m have "l = l1 @ a # m1 @ b # m2" by simp
  then show ?thesis by blast
qed

lemma severity_rank: "(priority_order (severity r) = priority_order s) = (severity r = s)"
  by (cases "severity r"; cases s) simp_all

lemma prioritize_filter:
  "filter (\<lambda>r. severity r = s) (prioritize rs) = filter (\<lambda>r. severity r = s) rs"
  using sort_key_stable [of "\<lambda>x. priority_order (severity x)" "priority_order s" rs]
  by (simp add: prioritize_def severity_rank)

lemma rank_values:
  "(priority_order s = 0) = (s = High)"
  "(priority_order s = 1) = (s = Medium)"
  "(priority_order s = 2) = (s = Low)"
  by (cases s; simp)+

lemma sorted_by_rank_split:
  "sorted (map (\<lambda>r. priority_order (severity r)) xs) \<Longrightarrow>
   xs = filter (\<lambda>r. severity r = High) xs @ filter (\<lambda>r. severity r = Medium) xs
        @ filter (\<lambda>r. severity r = Low) xs"
proof (induction xs)
  case Nil
  then show ?case by simp
next
  case (Cons x xs)
  then have le: "\<forall>y\<in>set xs. priority_order (severity x) \<le> priority_order (severity y)"
    and IH: "xs = filter (\<lambda>r. severity r = High) xs @ filter (\<lambda>r. severity r = Medium) xs
        @ filter (\<lambda>r. severity r = Low) xs"
    by simp_all
  show ?case
  proof (cases "severity x")
    case High
    with IH show ?thesis by simp
  next
    case Medium
    with le have "\<forall>y\<in>set xs. severity y \<noteq> High"
      by (metis priority_order.simps(1,2) not_one_le_zero)
    then have "filter (\<lambda>r. severity r = High) xs = []" by (simp add: filter_empty_conv)
    with IH Medium show ?thesis by simp
  next
    case Low
    with le have "\<forall>y\<in>set xs. severity y = Low"
      by (metis priority_order.simps(3) rank_values(3) severity.exhaust priority_order.simps(1,2)
          not_numeral_le_zero numeral_le_one_iff semiring_norm(69))
    then have "filter (\<lambda>r. severity r = High) xs = []" "filter (\<lambda>r. severity r = Medium) xs = []"
      "filter (\<lambda>r. severity r = Low) xs = xs"
      by (simp_all add: filter_empty_conv filter_id_conv)
    with Low show ?thesis by simp
  qed
qed

lemma prioritize_concat:
  "prioritize rs = filter (\<lambda>r. severity r = High) rs @ filter (\<lambda>r. severity r = Medium) rs
                   @ filter (\<lambda>r. severity r = Low) rs"
proof -
  have "sorted (map (\<lambda>r. priority_order (severity r)) (prioritize rs))"
    by (simp add: prioritize_def)
  from sorted_by_rank_split [OF this] show ?thesis
    by (simp add: prioritize_filter)
qed

lemma sorted_earlier_le:
  "sorted (map f (us @ a # vs @ b # ws)) \<Longrightarrow> f a \<le> f b"
  by (simp add: sorted_append)

text \<open>
  C4. The engine returns the emitted list stably sorted by severity rank, the ranks being
  high 0, medium 1, low 2. The output is the high recommendations, then the medium ones,
  then the low ones, each group in its emission order. So it is ordered by rank, it is a
  permutation of the emitted list, a recommendation that comes out before another never has
  the higher rank of the two, the recommendations of each severity keep their emission
  order, and two recommendations of equal severity emitted in the order a, b come out in
  the order a, b.
\<close>

theorem prioritizer_stable:
  "priority_order High = 0 \<and> priority_order Medium = 1 \<and> priority_order Low = 2
   \<and> prioritize rs = filter (\<lambda>r. severity r = High) rs @ filter (\<lambda>r. severity r = Medium) rs
                      @ filter (\<lambda>r. severity r = Low) rs
   \<and> sorted (map (\<lambda>r. priority_order (severity r)) (prioritize rs))
   \<and> mset (prioritize rs) = mset rs
   \<and> (\<forall>s. filter (\<lambda>r. severity r = s) (prioritize rs) = filter (\<lambda>r. severity r = s) rs)
   \<and> (prioritize rs = ps @ p # qs @ q # ts
        \<longrightarrow> priority_order (severity p) \<le> priority_order (severity q))
   \<and> (rs = xs @ a # ys @ b # zs \<and> severity a = severity b
        \<longrightarrow> (\<exists>us vs ws. prioritize rs = us @ a # vs @ b # ws))
   \<and> fst (generate_ai_optimization_recommendations ad_details insights td demographics)
       = (case fst (emitted ad_details insights td demographics) of
            Inl e \<Rightarrow> Inl e
          | Inr recommendations \<Rightarrow> Inr (prioritize recommendations))"
proof -
  have 0: "priority_order High = 0 \<and> priority_order Medium = 1 \<and> priority_order Low = 2"
    by simp
  have 1: "sorted (map (\<lambda>r. priority_order (severity r)) (prioritize rs))"
    by (simp add: prioritize_def)
  have 2: "mset (prioritize rs) = mset rs"
    by (simp add: prioritize_def)
  have 3: "\<forall>s. filter (\<lambda>r. severity r = s) (prioritize rs) = filter (\<lambda>r. severity r = s) rs"
    by (simp add: prioritize_filter)
  have 4: "\<exists>us vs ws. prioritize rs = us @ a # vs @ b # ws"
    if rs: "rs = xs @ a # ys @ b # zs" and ab: "severity a = severity b"
  proof -
    let ?P = "\<lambda>r. severity r = severity a"
    have "filter ?P (prioritize rs) = filter ?P xs @ a # filter ?P ys @ b # filter ?P zs"
      using prioritize_filter [of "severity a" rs] by (simp add: rs ab)
    then show ?thesis by (rule filter_keeps_order)
  qed
  have 5: "fst (generate_ai_optimization_recommendations ad_details insights td demographics)
       = (case fst (emitted ad_details insights td demographics) of
            Inl e \<Rightarrow> Inl e
          | Inr recommendations \<Rightarrow> Inr (prioritize recommendations))"
    by (simp add: generate_ai_optimization_recommendations_def and_then_def
        split: prod.splits sum.splits)
  have 6: "priority_order (severity p) \<le> priority_order (severity q)"
    if "prioritize rs = ps @ p # qs @ q # ts"
    using 1 that sorted_earlier_le [of "\<lambda>r. priority_order (severity r)" ps p qs q ts]
    by simp
  from 0 1 2 3 4 5 6 prioritize_concat [of rs] show ?thesis by blast
qed

text \<open>A low, a medium, a high and a second medium recommendation, emitted in this order,
  come out as high, medium, medium, low, the two medium ones in their emission order.\<close>

theorem prioritizer_stable_witness:
  "[schedule_recommendation ''Friday'' 0, text_recommendation 130, cta_recommendation,
    text_recommendation 200]
     = [schedule_recommendation ''Friday'' 0] @ text_recommendation 130 # [cta_recommendation]
       @ text_recommendation 200 # []
   \<and> severity (text_recommendation 130) = severity (text_recommendation 200)
   \<and> prioritize [schedule_recommendation ''Friday'' 0, text_recommendation 130,
                  cta_recommendation, text_recommendation 200]
       = [cta_recommendation, text_recommendation 130, text_recommendation 200,
          schedule_recommendation ''Friday'' 0]
   \<and> prioritize [schedule_recommendation ''Friday'' 0, text_recommendation 130,
                  cta_recommendation, text_recommendation 200]
       = [] @ cta_recommendation # [text_recommendation 130, text_recommendation 200]
         @ schedule_recommendation ''Friday'' 0 # []
   \<and> priority_order (severity cta_recommendation)
       \<le> priority_order (severity (schedule_recommendation ''Friday'' 0))
   \<and> (\<exists>us vs ws.
         prioritize [schedule_recommendation ''Friday'' 0, text_recommendation 130,
                     cta_recommendation, text_recommendation 200]
           = us @ text_recommendation 130 # vs @ text_recommendation 200 # ws)"
proof -
  let ?rs = "[schedule_recommendation ''Friday'' 0, text_recommendation 130, cta_recommendation,
    text_recommendation 200]"
  have sev: "severity (schedule_recommendation ''Friday'' 0) = Low"
    "severity (text_recommendation 130) = Medium" "severity (text_recommendation 200) = Medium"
    "severity cta_recommendation = High"
    by (simp_all add: schedule_recommendation_def text_recommendation_def cta_recommendation_def)
  have out: "prioritize ?rs = [cta_recommendation, text_recommendation 130,
      text_recommendation 200, schedule_recommendation ''Friday'' 0]"
    using prioritizer_stable [where rs = ?rs] by (simp add: sev)
  have dec: "?rs = [schedule_recommendation ''Friday'' 0] @ text_recommendation 130
      # [cta_recommendation] @ text_recommendation 200 # []"
    by simp
  have same: "severity (text_recommendation 130) = severity (text_recommendation 200)"
    by (simp add: sev)
  have pair: "\<exists>us vs ws. prioritize ?rs = us @ text_recommendation 130 # vs
      @ text_recommendation 200 # ws"
    using prioritizer_stable [where rs = ?rs and xs = "[schedule_recommendation ''Friday'' 0]"
        and a = "text_recommendation 130" and ys = "[cta_recommendation]"
        and b = "text_recommendation 200" and zs = "[]"] dec same
    by blast
  have out': "prioritize ?rs = [] @ cta_recommendation
      # [text_recommendation 130, text_recommendation 200]
      @ schedule_recommendation ''Friday'' 0 # []"
    by (simp add: out)
  have le: "priority_order (severity cta_recommendation)
       \<le> priority_order (severity (schedule_recommendation ''Friday'' 0))"
    using prioritizer_stable [where rs = ?rs and ps = "[]" and p = cta_recommendation
        and qs = "[text_recommendation 130, text_recommendation 200]"
        and q = "schedule_recommendation ''Friday'' 0" and ts = "[]"] out'
    by blast
  from dec same out out' pair le show ?thesis by blast
qed

lemma rule_temporal_frame:
  "snd (rule_temporal None) = None"
  "\<exists>df'. snd (rule_temporal (Some df)) = Some df'
     \<and> (\<forall>c. c \<noteq> ''day_of_week'' \<and> c \<noteq> ''hour'' \<longrightarrow> df' c = df c)"
  by (auto simp: rule_temporal_def Let_def split: option.splits column.splits)

lemma rule_temporal_returns:
  "fst (rule_temporal (Some df)) = Inr rs \<Longrightarrow>
   \<exists>ds. df ''date_start'' = Some (DateCol ds)
     \<and> snd (rule_temporal (Some df))
         = Some (df(''day_of_week'' \<mapsto> StrCol (map day_name ds), ''hour'' \<mapsto> IntCol (map ts_hour ds)))"
  by (auto simp: rule_temporal_def Let_def split: option.splits column.splits)

lemma generate_frame:
  "snd (generate_ai_optimization_recommendations ad_details insights td demographics) = td
   \<or> snd (generate_ai_optimization_recommendations ad_details insights td demographics)
       = snd (rule_temporal td)"
  by (auto simp: generate_ai_optimization_recommendations_def emitted_def
      split: prod.splits sum.splits)

lemma generate_returns_frame:
  "fst (generate_ai_optimization_recommendations ad_details insights td demographics) = Inr out \<Longrightarrow>
   (\<exists>rs. fst (rule_temporal td) = Inr rs)
   \<and> snd (generate_ai_optimization_recommendations ad_details insights td demographics)
       = snd (rule_temporal td)"
  by (auto simp: generate_ai_optimization_recommendations_def emitted_def and_then_def
      split: prod.splits sum.splits)

text \<open>
  C3 (as the code has it). The engine assigns nothing to \<^verbatim>\<open>ad_details\<close>, \<^verbatim>\<open>insights\<close>
  or \<^verbatim>\<open>demographics\<close>, which are read-only arguments here as in the source. The temporal
  frame is written to: an absent frame stays absent; a frame that is passed in keeps every
  column other than \<^verbatim>\<open>day_of_week\<close> and \<^verbatim>\<open>hour\<close>; and whenever the engine returns its
  list, the frame it leaves behind is the frame it was given with those two columns
  assigned from \<^verbatim>\<open>date_start\<close>.
\<close>

theorem temporal_frame_effect:
  "snd (generate_ai_optimization_recommendations ad_details insights None demographics) = None
   \<and> (\<exists>df'. snd (generate_ai_optimization_recommendations ad_details insights (Some df) demographics)
               = Some df'
          \<and> (\<forall>c. c \<noteq> ''day_of_week'' \<and> c \<noteq> ''hour'' \<longrightarrow> df' c = df c))
   \<and> (fst (generate_ai_optimization_recommendations ad_details insights (Some df) demographics)
         = Inr out
       \<longrightarrow> (\<exists>ds. df ''date_start'' = Some (DateCol ds)
              \<and> snd (generate_ai_optimization_recommendations ad_details insights (Some df)
                       demographics)
                  = Some (df(''day_of_week'' \<mapsto> StrCol (map day_name ds),
                             ''hour'' \<mapsto> IntCol (map ts_hour ds)))))"
proof (intro conjI impI)
  show "snd (generate_ai_optimization_recommendations ad_details insights None demographics) = None"
    using generate_frame [of ad_details insights None demographics] rule_temporal_frame(1)
    by presburger
next
  let ?G = "generate_ai_optimization_recommendations ad_details insights (Some df) demographics"
  from rule_temporal_frame(2) [of df] obtain d where
    d: "snd (rule_temporal (Some df)) = Some d"
       "\<forall>c. c \<noteq> ''day_of_week'' \<and> c \<noteq> ''hour'' \<longrightarrow> d c = df c"
    by blast
  from generate_frame [of ad_details insights "Some df" demographics]
  consider "snd ?G = Some df" | "snd ?G = Some d" using d(1) by presburger
  then show "\<exists>df'. snd ?G = Some df'
          \<and> (\<forall>c. c \<noteq> ''day_of_week'' \<and> c \<noteq> ''hour'' \<longrightarrow> df' c = df c)"
  proof cases
    case 1
    then show ?thesis by blast
  next
    case 2
    with d(2) show ?thesis by blast
  qed
next
  let ?G = "generate_ai_optimization_recommendations ad_details insights (Some df) demographics"
  assume "fst ?G = Inr out"
  from generate_returns_frame [OF this] obtain rs where
    rs: "fst (rule_temporal (Some df)) = Inr rs" and
    g: "snd ?G = snd (rule_temporal (Some df))"
    by blast
  from rule_temporal_returns [OF rs] obtain ds where
    "df ''date_start'' = Some (DateCol ds)"
    "snd (rule_temporal (Some df))
       = Some (df(''day_of_week'' \<mapsto> StrCol (map day_name ds), ''hour'' \<mapsto> IntCol (map ts_hour ds)))"
    by blast
  with g show "\<exists>ds. df ''date_start'' = Some (DateCol ds)
              \<and> snd ?G = Some (df(''day_of_week'' \<mapsto> StrCol (map day_name ds),
                             ''hour'' \<mapsto> IntCol (map ts_hour ds)))"
    by metis
qed

theorem temporal_frame_effect_witness:
  "fst (generate_ai_optimization_recommendations conversions_ad healthy_record
          (Some two_day_frame) [])
     = Inr [schedule_recommendation ''Friday'' 0]
   \<and> (\<exists>ds. two_day_frame ''date_start'' = Some (DateCol ds)
         \<and> snd (generate_ai_optimization_recommendations conversions_ad healthy_record
                  (Some two_day_frame) [])
             = Some (two_day_frame(''day_of_week'' \<mapsto> StrCol (map day_name ds),
                                   ''hour'' \<mapsto> IntCol (map ts_hour ds))))"
proof -
  have out: "fst (generate_ai_optimization_recommendations conversions_ad healthy_record
          (Some two_day_frame) []) = Inr [schedule_recommendation ''Friday'' 0]"
    by code_simp
  from temporal_frame_effect [of conversions_ad healthy_record "[]" two_day_frame
        "[schedule_recommendation ''Friday'' 0]", THEN conjunct2, THEN conjunct2, THEN mp, OF out]
  show ?thesis using out by blast
qed

text \<open>A frame without an \<^verbatim>\<open>hour\<close> column has one after the call: the input is not the
  same after the call as before.\<close>

theorem temporal_frame_counterexample:
  "two_day_frame ''hour'' = None
   \<and> the (snd (generate_ai_optimization_recommendations conversions_ad healthy_record
                 (Some two_day_frame) [])) ''hour'' = Some (IntCol [0, 0])
   \<and> snd (generate_ai_optimization_recommendations conversions_ad healthy_record
            (Some two_day_frame) []) \<noteq> Some two_day_frame"
proof -
  have a: "two_day_frame ''hour'' = None" by code_simp
  have b: "the (snd (generate_ai_optimization_recommendations conversions_ad healthy_record
                 (Some two_day_frame) [])) ''hour'' = Some (IntCol [0, 0])" by code_simp
  have c: "snd (generate_ai_optimization_recommendations conversions_ad healthy_record
            (Some two_day_frame) []) \<noteq> Some two_day_frame"
  proof
    assume "snd (generate_ai_optimization_recommendations conversions_ad healthy_record
            (Some two_day_frame) []) = Some two_day_frame"
    with b have "two_day_frame ''hour'' = Some (IntCol [0, 0])" by simp
    with a show False by simp
  qed
  from a b c show ?thesis by blast
qed

lemma groupby_sum_nonempty: "ks \<noteq> [] \<Longrightarrow> groupby_sum ks vs \<noteq> []"
proof -
  assume "ks \<noteq> []"
  then have "set (sort (remdups ks)) \<noteq> {}" by simp
  then have "sort (remdups ks) \<noteq> []" by (metis set_empty)
  then show ?thesis by (simp add: groupby_sum_def)
qed

lemma idxmax_nonempty: "s \<noteq> [] \<Longrightarrow> \<exists>k. idxmax s = Inr k"
  by (cases s) (simp_all add: idxmax_def)

lemma numeric_column_assigned:
  "numeric_column (df(''day_of_week'' \<mapsto> a, ''hour'' \<mapsto> b)) ''conversions''
     = numeric_column df ''conversions''"
  by (simp add: numeric_column_def)

lemma best_day_and_hour_found:
  assumes "ds \<noteq> []" and "numeric_column df ''conversions'' = Inr cs"
  shows "\<exists>best_day best_hour.
           best_day_and_hour ds df = Inr [schedule_recommendation best_day best_hour]"
proof -
  from assms(1) have "groupby_sum (map day_name ds) cs \<noteq> []"
    by (simp add: groupby_sum_nonempty)
  then obtain d where d: "idxmax (groupby_sum (map day_name ds) cs) = Inr d"
    using idxmax_nonempty by blast
  from assms(1) have "groupby_sum (map ts_hour ds) cs \<noteq> []"
    by (simp add: groupby_sum_nonempty)
  then obtain h where h: "idxmax (groupby_sum (map ts_hour ds) cs) = Inr h"
    using idxmax_nonempty by blast
  from assms(2) d h have "best_day_and_hour ds df = Inr [schedule_recommendation d h]"
    by (simp add: best_day_and_hour_def and_then_def)
  then show ?thesis by blast
qed

lemma best_day_and_hour_empty:
  "numeric_column df ''conversions'' = Inr cs \<Longrightarrow> best_day_and_hour [] df = Inl ValueError"
  by (simp add: best_day_and_hour_def and_then_def groupby_sum_def idxmax_def)

lemma rule_temporal_dates:
  "df ''date_start'' = Some (DateCol ds) \<Longrightarrow>
   fst (rule_temporal (Some df))
     = best_day_and_hour ds (df(''day_of_week'' \<mapsto> StrCol (map day_name ds),
                                ''hour'' \<mapsto> IntCol (map ts_hour ds)))"
  by (simp add: rule_temporal_def Let_def)

text \<open>
  The scheduling rule is guarded by \<^verbatim>\<open>temporal_data is not None\<close> only: without temporal
  data it is skipped; with a frame of at least one row (dates in \<^verbatim>\<open>date_start\<close>, numbers
  in \<^verbatim>\<open>conversions\<close>) the best day and hour are found and the recommendation is emitted;
  with a frame of no rows the lookup of the best day raises ValueError.
\<close>

lemma scheduling_rule_cases:
  "rule_temporal None = (Inr [], None)
   \<and> (df ''date_start'' = Some (DateCol ds) \<and> ds \<noteq> []
        \<and> numeric_column df ''conversions'' = Inr cs
       \<longrightarrow> (\<exists>best_day best_hour.
              fst (rule_temporal (Some df)) = Inr [schedule_recommendation best_day best_hour]))
   \<and> (df ''date_start'' = Some (DateCol []) \<and> numeric_column df ''conversions'' = Inr cs
       \<longrightarrow> fst (rule_temporal (Some df)) = Inl ValueError)"
proof (intro conjI impI)
  show "rule_temporal None = (Inr [], None)" by (simp add: rule_temporal_def)
next
  assume a: "df ''date_start'' = Some (DateCol ds) \<and> ds \<noteq> []
        \<and> numeric_column df ''conversions'' = Inr cs"
  then have "numeric_column (df(''day_of_week'' \<mapsto> StrCol (map day_name ds),
                                ''hour'' \<mapsto> IntCol (map ts_hour ds))) ''conversions'' = Inr cs"
    by (simp only: numeric_column_assigned)
  with a show "\<exists>best_day best_hour.
              fst (rule_temporal (Some df)) = Inr [schedule_recommendation best_day best_hour]"
    using best_day_and_hour_found rule_temporal_dates by metis
next
  assume a: "df ''date_start'' = Some (DateCol []) \<and> numeric_column df ''conversions'' = Inr cs"
  then have "numeric_column (df(''day_of_week'' \<mapsto> StrCol (map day_name []),
                                ''hour'' \<mapsto> IntCol (map ts_hour []))) ''conversions'' = Inr cs"
    by (simp only: numeric_column_assigned)
  with a show "fst (rule_temporal (Some df)) = Inl ValueError"
    using best_day_and_hour_empty rule_temporal_dates by metis
qed

text \<open>
  C2. For a temporal series of length 0 the best day and hour should be reported as
  insufficient data, without an exception. The scheduling rule tests only
  \<^verbatim>\<open>temporal_data is not None\<close>, where the demographic rule tests
  \<^verbatim>\<open>not demo_df.empty\<close> before it picks a row: on a frame that has its columns and no
  rows, \<^verbatim>\<open>idxmax\<close> is applied to an empty series and raises ValueError, and the engine
  ends with that exception.
\<close>

theorem temporal_empty_raises:
  "empty_frame ''date_start'' = Some (DateCol [])
   \<and> numeric_column empty_frame ''conversions'' = Inr []
   \<and> fst (rule_temporal (Some empty_frame)) = Inl ValueError
   \<and> fst (generate_ai_optimization_recommendations conversions_ad healthy_record
            (Some empty_frame) []) = Inl ValueError"
  by code_simp

text \<open>On the same frame the mean frequency and the three growth rates of
  \<^verbatim>\<open>generate_strategic_analysis\<close> are NaN, not 0; the growth rate of a single row is NaN
  as well.\<close>

lemma growth_rates_empty_frame:
  "freq_mean (Some empty_frame) = Inr NaN
   \<and> growth_rates (Some empty_frame) = Inr (Some (NaN, NaN, NaN))
   \<and> growth_rate [] = NaN
   \<and> growth_rate [x] = NaN"
proof -
  have "freq_mean (Some empty_frame) = Inr NaN" by code_simp
  moreover have "growth_rates (Some empty_frame) = Inr (Some (NaN, NaN, NaN))" by code_simp
  moreover have "growth_rate [] = NaN" by (simp add: growth_rate_def tail_def mean_def)
  moreover have "growth_rate [x] = NaN" by (simp add: growth_rate_def tail_def mean_def)
  ultimately show ?thesis by blast
qed

lemma growth_rates_absent: "freq_mean None = Inr (Fin 0) \<and> growth_rates None = Inr None"
  by (simp add: freq_mean_def growth_rates_def and_then_def)

lemma fl_div_one: "fl_div x (Fin 1) = x"
  by (cases x) simp_all

text \<open>
  C1 (as the code has it). At segment level (\<^verbatim>\<open>show_demographic_analysis\<close> and the
  engine's demographic rule) a zero denominator is replaced by 1, so the ratio is its
  numerator, times 100 for the two percentages: a segment with conversions = 0 has
  cost_per_conversion = spend. At aggregate level and at time-series level the guard is
  \<^verbatim>\<open>if denominator > 0 else 0\<close>, so a zero denominator gives 0.
\<close>

theorem zero_denominators:
  "(seg_conversions r = 0 \<longrightarrow> seg_cost_per_conversion r = seg_spend r)
   \<and> (seg_clicks r = 0 \<longrightarrow>
        seg_conversion_rate r = Fin (real_of_int (seg_conversions r) * 100))
   \<and> (seg_impressions r = 0 \<longrightarrow> seg_ctr r = Fin (real_of_int (seg_clicks r) * 100))
   \<and> (conversions d = 0 \<longrightarrow> cpa d = spend d)
   \<and> (field insights ''clicks'' = Fin 0 \<longrightarrow>
        agg_conversion_rate insights = Fin 0 \<and> agg_cpc insights = Fin 0)
   \<and> (field insights ''conversions'' = Fin 0 \<longrightarrow> agg_cost_per_conversion insights = Fin 0)
   \<and> (field insights ''impressions'' = Fin 0 \<longrightarrow> agg_cpm insights = Fin 0)
   \<and> ts_cpc s (Fin 0) = Fin 0
   \<and> ts_conversion_rate c (Fin 0) = Fin 0
   \<and> ts_cost_per_conversion s (Fin 0) = Fin 0"
  by (simp add: seg_cost_per_conversion_def seg_conversion_rate_def seg_ctr_def cpa_def
      replace_0_1_def fl_div_one agg_conversion_rate_def agg_cpc_def
      agg_cost_per_conversion_def agg_cpm_def ts_cpc_def ts_conversion_rate_def
      ts_cost_per_conversion_def fl_gt_def)

theorem zero_denominators_witness:
  "seg_conversions unseen_segment = 0
   \<and> seg_cost_per_conversion unseen_segment = Fin 100
   \<and> seg_clicks unseen_segment = 0 \<and> seg_conversion_rate unseen_segment = Fin 0
   \<and> seg_impressions unseen_segment = 0 \<and> seg_ctr unseen_segment = Fin 0
   \<and> conversions unconverted_row = 0 \<and> cpa unconverted_row = Fin 100
   \<and> field zero_counters_record ''clicks'' = Fin 0
   \<and> agg_conversion_rate zero_counters_record = Fin 0 \<and> agg_cpc zero_counters_record = Fin 0
   \<and> field zero_counters_record ''conversions'' = Fin 0
   \<and> agg_cost_per_conversion zero_counters_record = Fin 0
   \<and> field zero_counters_record ''impressions'' = Fin 0
   \<and> agg_cpm zero_counters_record = Fin 0"
proof -
  have f: "field zero_counters_record ''clicks'' = Fin 0"
    "field zero_counters_record ''conversions'' = Fin 0"
    "field zero_counters_record ''impressions'' = Fin 0"
    by code_simp+
  show ?thesis
    using zero_denominators [of unseen_segment unconverted_row zero_counters_record] f
    by (simp add: unseen_segment_def unconverted_row_def)
qed

text \<open>A segment with 0 conversions and a spend of 100 has cost per conversion 100, not 0.\<close>

theorem zero_denominators_counterexample:
  "seg_conversions unconverted_segment = 0
   \<and> seg_spend unconverted_segment = Fin 100
   \<and> seg_cost_per_conversion unconverted_segment = Fin 100
   \<and> seg_cost_per_conversion unconverted_segment \<noteq> Fin 0
   \<and> cpa unconverted_row = Fin 100"
  by code_simp

lemma split_on_no_sep: "sep \<notin> set s \<Longrightarrow> split_on sep s = [s]"
  by (induction s) auto

lemma split_on_append: "sep \<notin> set a \<Longrightarrow> split_on sep (a @ sep # b) = a # split_on sep b"
  by (induction a) auto

text \<open>
  C10 (as the code has it). The sort key is numeric: a bucket \<^verbatim>\<open>A-B\<close> has the key (A, B),
  so ranges sort by lower bound and then by upper bound; \<^verbatim>\<open>65+\<close> has the key (65, 100)
  and sorts after exactly the ranges with A < 65, or A = 65 and B < 100; a bucket that does
  not parse has the key (999, 999) and sorts after exactly the keys below (999, 999). The
  buckets 45-54, 18-24, 65+, 35-44 sort to 18-24, 35-44, 45-54, 65+.
\<close>

theorem age_bucket_keys:
  "age_sort_key ''65+'' = (65, 100)
   \<and> (int_of_string a = Some x \<and> int_of_string b = Some y
        \<and> CHR ''-'' \<notin> set a \<and> CHR ''-'' \<notin> set b
       \<longrightarrow> age_sort_key (a @ ''-'' @ b) = (x, y))
   \<and> (CHR ''-'' \<notin> set s \<and> s \<noteq> ''65+'' \<and> int_of_string s = None
       \<longrightarrow> age_sort_key s = (999, 999))
   \<and> (CHR ''-'' \<in> set t
        \<and> (length (split_on (CHR ''-'') t) \<noteq> 2
            \<or> None \<in> set (map int_of_string (split_on (CHR ''-'') t)))
       \<longrightarrow> age_sort_key t = (999, 999))
   \<and> ((x, y) < age_sort_key ''65+'' \<longleftrightarrow> x < 65 \<or> (x = 65 \<and> y < 100))
   \<and> ((x, y) < (999, 999 :: int) \<longleftrightarrow> x < 999 \<or> (x = 999 \<and> y < 999))
   \<and> sort_ages [''45-54'', ''18-24'', ''65+'', ''35-44'']
       = [''18-24'', ''35-44'', ''45-54'', ''65+'']"
proof (intro conjI impI)
  show k: "age_sort_key ''65+'' = (65, 100)" by (simp add: age_sort_key_def)
  show "((x, y) < age_sort_key ''65+'') = (x < 65 \<or> (x = 65 \<and> y < 100))"
    by (auto simp: k)
  show "((x, y) < (999, 999 :: int)) = (x < 999 \<or> (x = 999 \<and> y < 999))"
    by auto
  show "sort_ages [''45-54'', ''18-24'', ''65+'', ''35-44'']
       = [''18-24'', ''35-44'', ''45-54'', ''65+'']"
    by code_simp
next
  assume h: "int_of_string a = Some x \<and> int_of_string b = Some y
        \<and> CHR ''-'' \<notin> set a \<and> CHR ''-'' \<notin> set b"
  then have sp: "split_on (CHR ''-'') (a @ ''-'' @ b) = [a, b]"
    by (simp add: split_on_append split_on_no_sep)
  have ne: "a @ ''-'' @ b \<noteq> ''65+''"
  proof
    assume "a @ ''-'' @ b = ''65+''"
    then have "CHR ''-'' \<in> set ''65+''" by (metis in_set_conv_decomp append_Cons append_Nil)
    then show False by simp
  qed
  from h sp ne show "age_sort_key (a @ ''-'' @ b) = (x, y)"
    by (simp add: age_sort_key_def)
next
  assume "CHR ''-'' \<notin> set s \<and> s \<noteq> ''65+'' \<and> int_of_string s = None"
  then show "age_sort_key s = (999, 999)"
    by (simp add: age_sort_key_def)
next
  assume h: "CHR ''-'' \<in> set t
        \<and> (length (split_on (CHR ''-'') t) \<noteq> 2
            \<or> None \<in> set (map int_of_string (split_on (CHR ''-'') t)))"
  then have "t \<noteq> ''65+''" by auto
  with h show "age_sort_key t = (999, 999)"
    by (auto simp: age_sort_key_def split: list.splits option.splits)
qed

theorem age_bucket_keys_witness:
  "int_of_string ''18'' = Some 18 \<and> int_of_string ''24'' = Some 24
   \<and> CHR ''-'' \<notin> set ''18'' \<and> CHR ''-'' \<notin> set ''24''
   \<and> age_sort_key (''18'' @ ''-'' @ ''24'') = (18, 24)
   \<and> CHR ''-'' \<notin> set ''N/A'' \<and> ''N/A'' \<noteq> ''65+'' \<and> int_of_string ''N/A'' = None
   \<and> age_sort_key ''N/A'' = (999, 999)
   \<and> CHR ''-'' \<in> set ''18-24-30'' \<and> length (split_on (CHR ''-'') ''18-24-30'') \<noteq> 2
   \<and> age_sort_key ''18-24-30'' = (999, 999)"
proof -
  have a: "int_of_string ''18'' = Some 18" "int_of_string ''24'' = Some 24"
    "int_of_string ''N/A'' = None" "length (split_on (CHR ''-'') ''18-24-30'') \<noteq> 2"
    by code_simp+
  show ?thesis
    using age_bucket_keys [of "''18''" 18 "''24''" 24 "''N/A''" "''18-24-30''"] a
    by simp
qed

text \<open>The open bucket sorts before the bounded range 70-79, and an unparsable bucket
  sorts before the range 1000-2000.\<close>

theorem age_bucket_counterexample:
  "age_sort_key ''65+'' < age_sort_key ''70-79''
   \<and> sort_ages [''70-79'', ''65+''] = [''65+'', ''70-79'']
   \<and> age_sort_key ''N/A'' < age_sort_key ''1000-2000''"
  by code_simp

end
